theory Spec2Isabelle
  imports Main "HOL-Library.Char_ord" "HOL-Library.List_Lexorder" "HOL-Library.Multiset"
begin

section \<open>GitFlow: tiered batching of commit activity (analyze_repository_activity.py)\<close>

text \<open>
  A shallow embedding of \<^verbatim>\<open>src/analyze_repository_activity.py\<close>.
  Python strings are \<open>string\<close> (one \<open>char\<close> per character), Python integers are
  \<open>int\<close>, a dictionary read with \<^verbatim>\<open>d.get(key, default)\<close> is a record whose fields are
  options (\<open>None\<close>: the key is absent), the commit-to-diffs dictionary is a map, and
  the dictionary of day buckets, whose insertion order Python keeps, is an association
  list. Exceptions are values of \<open>error\<close>; the network, the language model and the
  data store are parameters that may raise. Each parameter is a function of its
  arguments: the same request gets the same answer within a run. Printing and the
  pause between two requests are left out.
\<close>

subsection \<open>Module constants\<close>

definition TIER_1_THRESHOLD :: int where
  "TIER_1_THRESHOLD = 100000"

definition TIER_2_THRESHOLD :: int where
  "TIER_2_THRESHOLD = 700000"

definition CHARS_PER_TOKEN :: int where
  "CHARS_PER_TOKEN = 3"

definition MAX_FILE_DIFF_SIZE :: nat where
  "MAX_FILE_DIFF_SIZE = 90000"

definition NON_CODE_EXTENSIONS :: "string set" where
  "NON_CODE_EXTENSIONS = set
    [''.jpg'', ''.jpeg'', ''.png'', ''.gif'', ''.svg'', ''.webp'', ''.ico'', ''.bmp'', ''.tiff'',
     ''.mp4'', ''.avi'', ''.mov'', ''.wmv'', ''.flv'', ''.webm'',
     ''.mp3'', ''.wav'', ''.ogg'', ''.flac'',
     ''.zip'', ''.tar'', ''.gz'', ''.rar'', ''.7z'', ''.exe'', ''.dll'', ''.so'', ''.dylib'',
     ''.pdf'', ''.doc'', ''.docx'', ''.xls'', ''.xlsx'', ''.ppt'', ''.pptx'',
     ''.woff'', ''.woff2'', ''.ttf'', ''.eot'', ''.otf'',
     ''.lock'']"

subsection \<open>Data\<close>

text \<open>A commit dictionary; every key is read with \<^verbatim>\<open>commit.get\<close>.\<close>

record commit =
  sha :: "string option"
  message :: "string option"
  author :: "string option"
  timestamp :: "string option"
  url :: "string option"

text \<open>A file entry of the GitHub response, read with \<^verbatim>\<open>f.get\<close>.\<close>

record raw_file =
  raw_filename :: "string option"
  raw_patch :: "string option"
  raw_status :: "string option"
  raw_additions :: "int option"
  raw_deletions :: "int option"

text \<open>A file entry as \<^verbatim>\<open>fetch_commit_diff\<close> returns it: every key present.\<close>

record file_change =
  filename :: string
  patch :: string
  status :: string
  additions :: int
  deletions :: int

type_synonym diff_map = "string \<rightharpoonup> file_change list"

definition dict_get :: "'a option \<Rightarrow> 'a \<Rightarrow> 'a" where
  "dict_get v dflt = (case v of None \<Rightarrow> dflt | Some x \<Rightarrow> x)"

subsection \<open>Strings\<close>

text \<open>\<^verbatim>\<open>str.split(sep)\<close> for a one-character separator: never an empty list.\<close>

fun str_split :: "char \<Rightarrow> string \<Rightarrow> string list" where
  "str_split d [] = [[]]"
| "str_split d (c # cs) =
     (if c = d then [] # str_split d cs
      else (case str_split d cs of
              [] \<Rightarrow> [[c]]
            | w # ws \<Rightarrow> (c # w) # ws))"

text \<open>
  \<^verbatim>\<open>str.lower()\<close> on the characters a \<open>char\<close> holds (code points below 256): the
  ASCII capitals, and the Latin-1 capitals 0xC0-0xDE but the multiplication sign 0xD7.
\<close>

definition lower_char :: "char \<Rightarrow> char" where
  "lower_char c =
     (let n = of_char c :: nat in
      if (65 \<le> n \<and> n \<le> 90) \<or> (192 \<le> n \<and> n \<le> 222 \<and> n \<noteq> 215)
      then char_of (n + 32) else c)"

definition str_lower :: "string \<Rightarrow> string" where
  "str_lower s = map lower_char s"

text \<open>\<^verbatim>\<open>sep.join(parts)\<close>.\<close>

fun str_join :: "string \<Rightarrow> string list \<Rightarrow> string" where
  "str_join sep [] = []"
| "str_join sep [p] = p"
| "str_join sep (p # q # ps) = p @ sep @ str_join sep (q # ps)"

text \<open>\<^verbatim>\<open>timestamp.replace("Z", "+00:00")\<close>: every occurrence is replaced.\<close>

definition replace_Z :: "string \<Rightarrow> string" where
  "replace_Z s = concat (map (\<lambda>c. if c = CHR ''Z'' then ''+00:00'' else [c]) s)"

subsection \<open>is_non_code_file, estimate_tokens\<close>

definition is_non_code_file :: "string \<Rightarrow> bool" where
  "is_non_code_file fname =
     (let ext = (if CHR ''.'' \<in> set fname
                 then ''.'' @ str_lower (last (str_split CHR ''.'' fname))
                 else [])
      in ext \<in> NON_CODE_EXTENSIONS)"

definition estimate_tokens :: "string \<Rightarrow> int" where
  "estimate_tokens text = int (length text) div CHARS_PER_TOKEN"

subsection \<open>build_commit_context\<close>

text \<open>
  The truth value of \<^verbatim>\<open>token_budget\<close> in \<^verbatim>\<open>if token_budget\<close>: \<^verbatim>\<open>None\<close> and \<^verbatim>\<open>0\<close>
  are both false.
\<close>

definition budget_given :: "int option \<Rightarrow> bool" where
  "budget_given token_budget = (case token_budget of None \<Rightarrow> False | Some b \<Rightarrow> b \<noteq> 0)"

text \<open>\<^verbatim>\<open>token_budget and (tokens > token_budget)\<close>.\<close>

definition over_budget :: "int option \<Rightarrow> int \<Rightarrow> bool" where
  "over_budget token_budget tokens =
     (case token_budget of None \<Rightarrow> False | Some b \<Rightarrow> b \<noteq> 0 \<and> tokens > b)"

definition get_file_size :: "file_change \<Rightarrow> int" where
  "get_file_size f = (if patch f \<noteq> [] then int (length (patch f)) else 0)"

definition code_fence :: string where
  "code_fence = [CHR 0x60, CHR 0x60, CHR 0x60]"

text \<open>The text of a file before the budget check (lines 163-165).\<close>

definition file_text_full :: "file_change \<Rightarrow> string" where
  "file_text_full f =
     ''File: '' @ filename f @ '' ('' @ status f @ '')\<newline>'' @
     (if patch f \<noteq> []
      then code_fence @ ''\<newline>'' @ patch f @ ''\<newline>'' @ code_fence @ ''\<newline>''
      else [])"

text \<open>The text that replaces it when the check fails (line 170).\<close>

definition file_text_omitted :: "file_change \<Rightarrow> string" where
  "file_text_omitted f =
     ''File: '' @ filename f @ '' ('' @ status f @ '')\<newline>'' @
     ''[TRUNCATED: File diff omitted due to token budget constraints. '' @
     ''This file was modified, but the full diff is not included. '' @
     ''Analyze based on existing context.]\<newline>''"

text \<open>
  The loop over the files of one commit (lines 162-172). \<^verbatim>\<open>total_tokens\<close> is read
  and never written here.
\<close>

fun files_loop :: "int option \<Rightarrow> int \<Rightarrow> file_change list \<Rightarrow> string \<Rightarrow> string" where
  "files_loop token_budget total_tokens [] commit_text = commit_text"
| "files_loop token_budget total_tokens (f # fs) commit_text =
     (let file_text = file_text_full f;
          file_tokens = estimate_tokens file_text;
          file_text' = (if over_budget token_budget (total_tokens + file_tokens)
                        then file_text_omitted f else file_text)
      in files_loop token_budget total_tokens fs (commit_text @ file_text'))"

definition commit_header :: "commit \<Rightarrow> string" where
  "commit_header c =
     ''Commit: '' @ take 7 (dict_get (sha c) '''') @
     ''\<newline>Author: '' @ dict_get (author c) ''Unknown'' @
     ''\<newline>Date: '' @ dict_get (timestamp c) '''' @
     ''\<newline>Message: '' @ dict_get (message c) '''' @ ''\<newline>''"

text \<open>The text of one commit as the loop body composes it (lines 142-172).\<close>

definition commit_text_of :: "int option \<Rightarrow> diff_map \<Rightarrow> int \<Rightarrow> commit \<Rightarrow> string" where
  "commit_text_of token_budget commit_diffs total_tokens c =
     (case commit_diffs (dict_get (sha c) '''') of
        None \<Rightarrow> commit_header c
      | Some files \<Rightarrow>
          files_loop token_budget total_tokens
            (if budget_given token_budget then sort_key get_file_size files else files)
            (commit_header c))"

text \<open>The loop over the commits (lines 141-181); \<^verbatim>\<open>break\<close> returns the parts so far.\<close>

fun commits_loop ::
  "int option \<Rightarrow> diff_map \<Rightarrow> commit list \<Rightarrow> string list \<Rightarrow> int \<Rightarrow> string list" where
  "commits_loop token_budget commit_diffs [] parts total_tokens = parts"
| "commits_loop token_budget commit_diffs (c # cs) parts total_tokens =
     (let commit_text = commit_text_of token_budget commit_diffs total_tokens c;
          commit_tokens = estimate_tokens commit_text
      in if over_budget token_budget (total_tokens + commit_tokens) then parts
         else commits_loop token_budget commit_diffs cs
                (parts @ [commit_text]) (total_tokens + commit_tokens))"

definition build_commit_context :: "commit list \<Rightarrow> diff_map \<Rightarrow> int option \<Rightarrow> string" where
  "build_commit_context commits commit_diffs token_budget =
     str_join ''\<newline>---\<newline>'' (commits_loop token_budget commit_diffs commits [] 0)"

subsection \<open>fetch_commit_diff\<close>

datatype error = Raised string | ZeroDivisionError | KeyError

text \<open>
  What \<^verbatim>\<open>requests.get\<close> returns: the status code and the \<^verbatim>\<open>files\<close> list of the JSON
  body (an absent key reads as the empty list). \<open>json_files = None\<close> stands for a body
  on which the \<^verbatim>\<open>try\<close> block raises (no JSON, or JSON of another shape). The call
  itself stands before the \<^verbatim>\<open>try\<close>: when it raises, \<^verbatim>\<open>fetch_commit_diff\<close> raises.
  The request headers are fixed for a run and are part of the parameter.
\<close>

record http_response =
  status_code :: int
  json_files :: "raw_file list option"

type_synonym http_get = "string \<Rightarrow> error + http_response"

definition truncation_marker :: string where
  "truncation_marker =
     ''\<newline>\<newline>[TRUNCATED: File diff exceeds size limit. '' @
     ''The content above represents only the beginning of the changes. '' @
     ''Analyze based on the visible portion.]''"

text \<open>Lines 93-105: the entry appended for a file that is kept.\<close>

definition processed_entry :: "raw_file \<Rightarrow> file_change" where
  "processed_entry f =
     (let p = dict_get (raw_patch f) '''';
          p' = (if length p > MAX_FILE_DIFF_SIZE
                then take MAX_FILE_DIFF_SIZE p @ truncation_marker else p)
      in \<lparr>filename = dict_get (raw_filename f) '''',
          patch = p',
          status = dict_get (raw_status f) ''modified'',
          additions = dict_get (raw_additions f) 0,
          deletions = dict_get (raw_deletions f) 0\<rparr>)"

text \<open>The loop of lines 86-105 over the files of the response.\<close>

fun files_scan :: "raw_file list \<Rightarrow> file_change list \<Rightarrow> file_change list" where
  "files_scan [] processed_files = processed_files"
| "files_scan (f # files) processed_files =
     (if is_non_code_file (dict_get (raw_filename f) '''')
      then files_scan files processed_files
      else files_scan files (processed_files @ [processed_entry f]))"

definition fetch_commit_diff :: "http_get \<Rightarrow> string \<Rightarrow> string \<Rightarrow> error + file_change list" where
  "fetch_commit_diff requests_get repo_path commit_sha =
     (case requests_get (''https://api.github.com/repos/'' @ repo_path @ ''/commits/'' @ commit_sha) of
        Inl e \<Rightarrow> Inl e
      | Inr response \<Rightarrow>
          if status_code response \<noteq> 200 then Inr []
          else (case json_files response of
                  None \<Rightarrow> Inr []
                | Some files \<Rightarrow> Inr (files_scan files [])))"

subsection \<open>group_commits_by_day\<close>

text \<open>
  \<^verbatim>\<open>datetime.fromisoformat(s).strftime("%Y-%m-%d")\<close> is the standard library's and is a
  parameter \<open>iso_day\<close>: the day key of a string it parses, \<open>None\<close> when it raises.
  The dictionary of buckets is an association list in insertion order;
  \<open>bucket_append\<close> is \<^verbatim>\<open>by_day[key].append(commit)\<close> on a \<^verbatim>\<open>defaultdict(list)\<close>.
\<close>

type_synonym day_buckets = "(string \<times> commit list) list"

fun bucket_append :: "string \<Rightarrow> commit \<Rightarrow> day_buckets \<Rightarrow> day_buckets" where
  "bucket_append k c [] = [(k, [c])]"
| "bucket_append k c ((k', cs) # by_day) =
     (if k = k' then (k', cs @ [c]) # by_day else (k', cs) # bucket_append k c by_day)"

definition day_key_of :: "(string \<Rightarrow> string option) \<Rightarrow> commit \<Rightarrow> string" where
  "day_key_of iso_day c =
     (let ts = dict_get (timestamp c) '''' in
      if ts \<noteq> []
      then (case iso_day (replace_Z ts) of Some day_key \<Rightarrow> day_key | None \<Rightarrow> ''unknown'')
      else ''unknown'')"

fun group_loop :: "(string \<Rightarrow> string option) \<Rightarrow> commit list \<Rightarrow> day_buckets \<Rightarrow> day_buckets" where
  "group_loop iso_day [] by_day = by_day"
| "group_loop iso_day (c # commits) by_day =
     group_loop iso_day commits (bucket_append (day_key_of iso_day c) c by_day)"

definition group_commits_by_day :: "(string \<Rightarrow> string option) \<Rightarrow> commit list \<Rightarrow> day_buckets" where
  "group_commits_by_day iso_day commits = group_loop iso_day commits []"

subsection \<open>analyze_batch, process_batch_and_extend\<close>

record change =
  summary :: string
  category :: string
  contributing_commits :: "string list"

text \<open>\<^verbatim>\<open>RepositoryAnalysis\<close>, the response model of the language model call.\<close>

record repository_analysis =
  llm_changes :: "change list"

text \<open>
  \<^verbatim>\<open>analyze_batch\<close> wraps the context in a fixed prompt and calls the hosted model: it
  is a parameter, a function of the repository path, the context and the repository
  context (the model name is fixed for a run). It returns an analysis or \<^verbatim>\<open>None\<close>, or
  raises.
\<close>

type_synonym 'ctx analyze_batch =
  "string \<Rightarrow> string \<Rightarrow> 'ctx option \<Rightarrow> error + repository_analysis option"

text \<open>
  The list \<^verbatim>\<open>all_changes\<close> that the functions below extend in place, and a record of
  the calls of \<^verbatim>\<open>process_batch_and_extend\<close> made so far: the commits and the budget
  handed to \<^verbatim>\<open>build_commit_context\<close> and the context handed to \<^verbatim>\<open>analyze_batch\<close>.
  No branch reads \<open>batch_calls\<close>.
\<close>

record batch_call =
  call_commits :: "commit list"
  call_budget :: "int option"
  call_context :: string

record run_state =
  all_changes :: "change list"
  batch_calls :: "batch_call list"

definition process_batch_and_extend ::
  "'ctx analyze_batch \<Rightarrow> commit list \<Rightarrow> diff_map \<Rightarrow> run_state \<Rightarrow> string \<Rightarrow> 'ctx option \<Rightarrow>
   int option \<Rightarrow> error + run_state" where
  "process_batch_and_extend analyze_batch commits commit_diffs st repo_path repo_context token_budget =
     (let batch_context = build_commit_context commits commit_diffs token_budget in
      case analyze_batch repo_path batch_context repo_context of
        Inl e \<Rightarrow> Inl e
      | Inr result \<Rightarrow>
          Inr \<lparr>all_changes =
                 all_changes st @ (case result of None \<Rightarrow> [] | Some r \<Rightarrow> llm_changes r),
               batch_calls =
                 batch_calls st @
                 [\<lparr>call_commits = commits, call_budget = token_budget,
                   call_context = batch_context\<rparr>]\<rparr>)"

subsection \<open>process_small_days_batch\<close>

type_synonym day_entry = "string \<times> commit list \<times> int"

text \<open>The loop of lines 264-275; it returns the batch left over and the state.\<close>

fun small_days_loop ::
  "'ctx analyze_batch \<Rightarrow> diff_map \<Rightarrow> string \<Rightarrow> 'ctx option \<Rightarrow> int \<Rightarrow> day_entry list \<Rightarrow>
   commit list \<Rightarrow> int \<Rightarrow> run_state \<Rightarrow> error + (commit list \<times> run_state)" where
  "small_days_loop analyze_batch commit_diffs repo_path repo_context batch_threshold []
     current_batch current_tokens st = Inr (current_batch, st)"
| "small_days_loop analyze_batch commit_diffs repo_path repo_context batch_threshold
     ((day, day_commits, day_tokens) # small_days) current_batch current_tokens st =
     (if current_batch \<noteq> [] \<and> current_tokens + day_tokens > batch_threshold
      then (case process_batch_and_extend analyze_batch current_batch commit_diffs st
                   repo_path repo_context None of
              Inl e \<Rightarrow> Inl e
            | Inr st' \<Rightarrow>
                small_days_loop analyze_batch commit_diffs repo_path repo_context batch_threshold
                  small_days ([] @ day_commits) (0 + day_tokens) st')
      else small_days_loop analyze_batch commit_diffs repo_path repo_context batch_threshold
             small_days (current_batch @ day_commits) (current_tokens + day_tokens) st)"

definition process_small_days_batch ::
  "'ctx analyze_batch \<Rightarrow> day_entry list \<Rightarrow> diff_map \<Rightarrow> run_state \<Rightarrow> string \<Rightarrow> 'ctx option \<Rightarrow>
   int \<Rightarrow> error + run_state" where
  "process_small_days_batch analyze_batch small_days commit_diffs st repo_path repo_context
     batch_threshold =
     (case small_days_loop analyze_batch commit_diffs repo_path repo_context batch_threshold
             small_days [] 0 st of
        Inl e \<Rightarrow> Inl e
      | Inr (current_batch, st') \<Rightarrow>
          if current_batch \<noteq> []
          then process_batch_and_extend analyze_batch current_batch commit_diffs st'
                 repo_path repo_context None
          else Inr st')"

text \<open>The default of the parameter \<^verbatim>\<open>batch_threshold\<close>.\<close>

definition DEFAULT_BATCH_THRESHOLD :: int where
  "DEFAULT_BATCH_THRESHOLD = 90000"

subsection \<open>process_repository\<close>

record activity =
  activity_commits :: "commit list option"

text \<open>The dictionary \<^verbatim>\<open>{"repository": ..., "changes": ...}\<close> of one repository.\<close>

record repo_result =
  repository :: string
  changes :: "change list"

text \<open>The loop of lines 306-311 that fills \<^verbatim>\<open>commit_diffs\<close>.\<close>

fun fetch_diffs_loop :: "http_get \<Rightarrow> string \<Rightarrow> commit list \<Rightarrow> diff_map \<Rightarrow> error + diff_map" where
  "fetch_diffs_loop requests_get repo_path [] commit_diffs = Inr commit_diffs"
| "fetch_diffs_loop requests_get repo_path (c # commits) commit_diffs =
     (let s = dict_get (sha c) '''' in
      if s \<noteq> []
      then (case fetch_commit_diff requests_get repo_path s of
              Inl e \<Rightarrow> Inl e
            | Inr diffs \<Rightarrow>
                fetch_diffs_loop requests_get repo_path commits
                  (if diffs \<noteq> [] then commit_diffs(s \<mapsto> diffs) else commit_diffs))
      else fetch_diffs_loop requests_get repo_path commits commit_diffs)"

text \<open>
  The loop of lines 336-340: the commits of each day in turn, with the estimated
  size of the day's own context. A key that is not in the dictionary raises
  \<^verbatim>\<open>KeyError\<close>.
\<close>

fun day_data_loop ::
  "diff_map \<Rightarrow> day_buckets \<Rightarrow> string list \<Rightarrow> day_entry list \<Rightarrow> error + day_entry list" where
  "day_data_loop commit_diffs commits_by_day [] day_data = Inr day_data"
| "day_data_loop commit_diffs commits_by_day (day # sorted_days) day_data =
     (case map_of commits_by_day day of
        None \<Rightarrow> Inl KeyError
      | Some day_commits \<Rightarrow>
          (let day_context = build_commit_context day_commits commit_diffs None;
               day_tokens = estimate_tokens day_context
           in day_data_loop commit_diffs commits_by_day sorted_days
                (day_data @ [(day, day_commits, day_tokens)])))"

text \<open>
  The loop of lines 358-366: the commits and the estimated size of each day in turn;
  the day goes to \<^verbatim>\<open>large_days\<close> or to \<^verbatim>\<open>small_days\<close>.
\<close>

fun classify_days_loop ::
  "diff_map \<Rightarrow> day_buckets \<Rightarrow> string list \<Rightarrow> day_entry list \<Rightarrow> day_entry list \<Rightarrow>
   error + (day_entry list \<times> day_entry list)" where
  "classify_days_loop commit_diffs commits_by_day [] large_days small_days =
     Inr (large_days, small_days)"
| "classify_days_loop commit_diffs commits_by_day (day # sorted_days) large_days small_days =
     (case map_of commits_by_day day of
        None \<Rightarrow> Inl KeyError
      | Some day_commits \<Rightarrow>
          (let day_context = build_commit_context day_commits commit_diffs None;
               day_tokens = estimate_tokens day_context
           in if day_tokens > TIER_1_THRESHOLD
              then classify_days_loop commit_diffs commits_by_day sorted_days
                     (large_days @ [(day, day_commits, day_tokens)]) small_days
              else classify_days_loop commit_diffs commits_by_day sorted_days
                     large_days (small_days @ [(day, day_commits, day_tokens)])))"

text \<open>
  The loop of lines 369-377 over the large days. The division raises on an empty
  list of commits.
\<close>

fun large_days_loop ::
  "'ctx analyze_batch \<Rightarrow> diff_map \<Rightarrow> string \<Rightarrow> 'ctx option \<Rightarrow> day_entry list \<Rightarrow> run_state \<Rightarrow>
   error + run_state" where
  "large_days_loop analyze_batch commit_diffs repo_path repo_context [] st = Inr st"
| "large_days_loop analyze_batch commit_diffs repo_path repo_context
     ((day, day_commits, day_tokens) # large_days) st =
     (if day_tokens > TIER_1_THRESHOLD
      then (if day_commits = [] then Inl ZeroDivisionError
            else (let budget_per_commit = TIER_1_THRESHOLD div int (length day_commits) in
                  case process_batch_and_extend analyze_batch day_commits commit_diffs st
                         repo_path repo_context (Some budget_per_commit) of
                    Inl e \<Rightarrow> Inl e
                  | Inr st' \<Rightarrow>
                      large_days_loop analyze_batch commit_diffs repo_path repo_context
                        large_days st'))
      else large_days_loop analyze_batch commit_diffs repo_path repo_context large_days st)"

text \<open>The branch of lines 329-346.\<close>

definition tier_2_split_by_day ::
  "'ctx analyze_batch \<Rightarrow> (string \<Rightarrow> string option) \<Rightarrow> commit list \<Rightarrow> diff_map \<Rightarrow> run_state \<Rightarrow>
   string \<Rightarrow> 'ctx option \<Rightarrow> error + run_state" where
  "tier_2_split_by_day analyze_batch iso_day commits commit_diffs st repo_path repo_context =
     (let commits_by_day = group_commits_by_day iso_day commits;
          sorted_days = sort (map fst commits_by_day)
      in case day_data_loop commit_diffs commits_by_day sorted_days [] of
           Inl e \<Rightarrow> Inl e
         | Inr day_data \<Rightarrow>
             process_small_days_batch analyze_batch day_data commit_diffs st
               repo_path repo_context DEFAULT_BATCH_THRESHOLD)"

text \<open>The branch of lines 349-383.\<close>

definition tier_3_hybrid ::
  "'ctx analyze_batch \<Rightarrow> (string \<Rightarrow> string option) \<Rightarrow> commit list \<Rightarrow> diff_map \<Rightarrow> run_state \<Rightarrow>
   string \<Rightarrow> 'ctx option \<Rightarrow> error + run_state" where
  "tier_3_hybrid analyze_batch iso_day commits commit_diffs st repo_path repo_context =
     (let commits_by_day = group_commits_by_day iso_day commits;
          sorted_days = sort (map fst commits_by_day)
      in case classify_days_loop commit_diffs commits_by_day sorted_days [] [] of
           Inl e \<Rightarrow> Inl e
         | Inr (large_days, small_days) \<Rightarrow>
             (case large_days_loop analyze_batch commit_diffs repo_path repo_context
                     large_days st of
                Inl e \<Rightarrow> Inl e
              | Inr st' \<Rightarrow>
                  process_small_days_batch analyze_batch small_days commit_diffs st'
                    repo_path repo_context DEFAULT_BATCH_THRESHOLD))"

text \<open>
  \<^verbatim>\<open>process_repository\<close> returns the result dictionary; the model returns with it the
  calls that were made.
\<close>

definition process_repository ::
  "http_get \<Rightarrow> 'ctx analyze_batch \<Rightarrow> (string \<Rightarrow> string option) \<Rightarrow> string \<Rightarrow> activity \<Rightarrow>
   'ctx option \<Rightarrow> error + (repo_result \<times> batch_call list)" where
  "process_repository requests_get analyze_batch iso_day repo_path activity_data repo_context =
     (let commits = dict_get (activity_commits activity_data) [] in
      if commits = [] then Inr (\<lparr>repository = repo_path, changes = []\<rparr>, [])
      else
        (case fetch_diffs_loop requests_get repo_path commits Map.empty of
           Inl e \<Rightarrow> Inl e
         | Inr commit_diffs \<Rightarrow>
             (let full_context = build_commit_context commits commit_diffs None;
                  total_tokens = estimate_tokens full_context;
                  st = \<lparr>all_changes = [], batch_calls = []\<rparr>;
                  run =
                    (if total_tokens < TIER_1_THRESHOLD
                     then process_batch_and_extend analyze_batch commits commit_diffs st
                            repo_path repo_context None
                     else if total_tokens < TIER_2_THRESHOLD
                     then tier_2_split_by_day analyze_batch iso_day commits commit_diffs st
                            repo_path repo_context
                     else tier_3_hybrid analyze_batch iso_day commits commit_diffs st
                            repo_path repo_context)
              in case run of
                   Inl e \<Rightarrow> Inl e
                 | Inr st' \<Rightarrow>
                     Inr (\<lparr>repository = repo_path, changes = all_changes st'\<rparr>,
                          batch_calls st'))))"

subsection \<open>The loop over the repositories (lines 408-432)\<close>

text \<open>
  \<^verbatim>\<open>github_activity_data.items()\<close> is an association list in the dictionary's order.
  \<^verbatim>\<open>except Exception\<close> turns whatever \<^verbatim>\<open>process_repository\<close> raises into the result
  with no changes. \<^verbatim>\<open>waveassist.store_data\<close> stands after the \<^verbatim>\<open>try\<close> statement: it is
  a parameter that returns \<open>Some e\<close> when it raises, and then the loop raises.
\<close>

fun repositories_loop ::
  "http_get \<Rightarrow> 'ctx analyze_batch \<Rightarrow> (string \<Rightarrow> string option) \<Rightarrow>
   (repo_result list \<Rightarrow> error option) \<Rightarrow> (string \<rightharpoonup> 'ctx) \<Rightarrow> (string \<times> activity) list \<Rightarrow>
   repo_result list \<Rightarrow> error + repo_result list" where
  "repositories_loop requests_get analyze_batch iso_day store_data repository_contexts []
     repository_analyses = Inr repository_analyses"
| "repositories_loop requests_get analyze_batch iso_day store_data repository_contexts
     ((repo_path, activity_data) # github_activity_data) repository_analyses =
     (let repo_context = repository_contexts repo_path;
          repository_analyses' =
            (case process_repository requests_get analyze_batch iso_day repo_path
                    activity_data repo_context of
               Inr (analysis, calls) \<Rightarrow> repository_analyses @ [analysis]
             | Inl e \<Rightarrow> repository_analyses @ [\<lparr>repository = repo_path, changes = []\<rparr>])
      in case store_data repository_analyses' of
           Some e \<Rightarrow> Inl e
         | None \<Rightarrow>
             repositories_loop requests_get analyze_batch iso_day store_data repository_contexts
               github_activity_data repository_analyses')"

subsection \<open>Notions of the specification\<close>

text \<open>
  The definitions of this subsection are not translations of the source: they write
  down what the specification says, and the properties below compare the source's
  functions with them.
\<close>

text \<open>
  The full rendered block of a commit: its header, then the full text of each of its
  files in the order of the diff map.
\<close>

definition full_commit_block :: "diff_map \<Rightarrow> commit \<Rightarrow> string" where
  "full_commit_block commit_diffs c =
     commit_header c @
     (case commit_diffs (dict_get (sha c) '''') of
        None \<Rightarrow> []
      | Some files \<Rightarrow> concat (map file_text_full files))"

text \<open>
  The text of one file under a budget \<open>b\<close>, decided from the running total and the
  size of that file's own block.
\<close>

definition file_text_under :: "int \<Rightarrow> int \<Rightarrow> file_change \<Rightarrow> string" where
  "file_text_under b total_tokens f =
     (if total_tokens + estimate_tokens (file_text_full f) > b
      then file_text_omitted f else file_text_full f)"

text \<open>
  The text composed for one commit under a budget \<open>b\<close>: its header, then its files
  with the smallest patch first, each decided on its own from the same running total.
\<close>

definition budgeted_commit_text :: "int \<Rightarrow> diff_map \<Rightarrow> int \<Rightarrow> commit \<Rightarrow> string" where
  "budgeted_commit_text b commit_diffs total_tokens c =
     commit_header c @
     (case commit_diffs (dict_get (sha c) '''') of
        None \<Rightarrow> []
      | Some files \<Rightarrow>
          concat (map (file_text_under b total_tokens)
                    (sort_key (\<lambda>f. length (patch f)) files)))"

text \<open>
  The commits appended under a budget \<open>b\<close>: a commit is appended when the running
  total plus the size of its whole composed text is within the budget, and the total
  then grows by that size; the first commit that does not fit ends the list.
\<close>

fun budgeted_parts :: "int \<Rightarrow> diff_map \<Rightarrow> int \<Rightarrow> commit list \<Rightarrow> string list" where
  "budgeted_parts b commit_diffs total_tokens [] = []"
| "budgeted_parts b commit_diffs total_tokens (c # cs) =
     (let commit_text = budgeted_commit_text b commit_diffs total_tokens c
      in if total_tokens + estimate_tokens commit_text > b then []
         else commit_text #
              budgeted_parts b commit_diffs (total_tokens + estimate_tokens commit_text) cs)"

text \<open>The extension of a file name: the text after the final dot, if there is a dot.\<close>

definition final_extension :: "string \<Rightarrow> string option" where
  "final_extension fname =
     (if CHR ''.'' \<in> set fname
      then Some (rev (takeWhile (\<lambda>c. c \<noteq> CHR ''.'') (rev fname)))
      else None)"

definition extension_is_non_code :: "string \<Rightarrow> bool" where
  "extension_is_non_code fname =
     (case final_extension fname of
        None \<Rightarrow> False
      | Some e \<Rightarrow> ''.'' @ str_lower e \<in> NON_CODE_EXTENSIONS)"

text \<open>
  The greedy packing of section 4.6: a running batch and its accumulated size; a day
  that would push the size over the threshold while the batch is non-empty flushes
  the batch; a non-empty batch is flushed at the end.
\<close>

fun pack_days :: "int \<Rightarrow> day_entry list \<Rightarrow> commit list \<Rightarrow> int \<Rightarrow> commit list list" where
  "pack_days threshold [] batch running = (if batch \<noteq> [] then [batch] else [])"
| "pack_days threshold ((day, day_commits, day_tokens) # days) batch running =
     (if running + day_tokens > threshold \<and> batch \<noteq> []
      then batch # pack_days threshold days day_commits day_tokens
      else pack_days threshold days (batch @ day_commits) (running + day_tokens))"

text \<open>The call that summarizes a batch without a budget.\<close>

definition unbudgeted_call :: "diff_map \<Rightarrow> commit list \<Rightarrow> batch_call" where
  "unbudgeted_call commit_diffs batch =
     \<lparr>call_commits = batch, call_budget = None,
      call_context = build_commit_context batch commit_diffs None\<rparr>"

text \<open>
  The call that summarizes a large day: the budget is the Tier-1 threshold divided by
  the number of commits of the day.
\<close>

definition large_day_call :: "diff_map \<Rightarrow> day_entry \<Rightarrow> batch_call" where
  "large_day_call commit_diffs e =
     (case e of (day, day_commits, day_tokens) \<Rightarrow>
        \<lparr>call_commits = day_commits,
         call_budget = Some (100000 div int (length day_commits)),
         call_context = build_commit_context day_commits commit_diffs
                          (Some (100000 div int (length day_commits)))\<rparr>)"

text \<open>The day buckets sorted by day key, each with its own estimated size.\<close>

definition day_entries ::
  "(string \<Rightarrow> string option) \<Rightarrow> diff_map \<Rightarrow> commit list \<Rightarrow> day_entry list" where
  "day_entries iso_day commit_diffs commits =
     map (\<lambda>(day, day_commits).
            (day, day_commits,
             estimate_tokens (build_commit_context day_commits commit_diffs None)))
         (sort_key fst (group_commits_by_day iso_day commits))"

subsection \<open>Example inputs\<close>

text \<open>
  A parser for the examples: it accepts the 25 characters of
  \<^verbatim>\<open>YYYY-MM-DDTHH:MM:SS+00:00\<close> and returns the first ten.
\<close>

definition example_iso_day :: "string \<Rightarrow> string option" where
  "example_iso_day s =
     (if length s = 25 \<and> s ! 4 = CHR ''-'' \<and> s ! 7 = CHR ''-'' \<and> s ! 10 = CHR ''T''
      then Some (take 10 s) else None)"

definition example_commit_at :: "string \<Rightarrow> string option \<Rightarrow> commit" where
  "example_commit_at s ts =
     \<lparr>sha = Some s, message = Some ''Add user authentication'', author = Some ''developer1'',
      timestamp = ts, url = None\<rparr>"

definition example_commits :: "commit list" where
  "example_commits =
     [example_commit_at ''abc1'' (Some ''2024-01-15T10:00:00Z''),
      example_commit_at ''abc2'' None,
      example_commit_at ''abc3'' (Some ''2024-01-16T10:00:00Z''),
      example_commit_at ''abc4'' (Some ''yesterday''),
      example_commit_at ''abc5'' (Some ''2024-01-15T18:00:00Z'')]"

definition example_raw_file :: "string \<Rightarrow> string \<Rightarrow> raw_file" where
  "example_raw_file n p =
     \<lparr>raw_filename = Some n, raw_patch = Some p, raw_status = Some ''modified'',
      raw_additions = Some 1, raw_deletions = Some 0\<rparr>"

definition example_raw_files :: "raw_file list" where
  "example_raw_files =
     [example_raw_file ''IMAGE.PNG'' [],
      example_raw_file ''Makefile'' ''+all: build'',
      example_raw_file ''dist/app.tar.gz'' [],
      example_raw_file ''src/app.py'' (replicate 95000 CHR ''+''),
      example_raw_file ''Cargo.lock'' ''+version = 3'']"

definition example_file :: "string \<Rightarrow> string \<Rightarrow> file_change" where
  "example_file n p =
     \<lparr>filename = n, patch = p, status = ''modified'', additions = 1, deletions = 0\<rparr>"

text \<open>A commit of the given day whose message has \<open>n\<close> characters.\<close>

definition example_big_commit :: "string \<Rightarrow> string \<Rightarrow> nat \<Rightarrow> commit" where
  "example_big_commit s day n =
     \<lparr>sha = Some s, message = Some (replicate n CHR ''m''), author = Some ''developer1'',
      timestamp = Some (day @ ''T10:00:00Z''), url = None\<rparr>"

text \<open>Three days of 60,023 estimated tokens each, 180,072 in all.\<close>

definition example_tier_2_commits :: "commit list" where
  "example_tier_2_commits =
     [example_big_commit ''big2'' ''2024-01-16'' 180000,
      example_big_commit ''big1'' ''2024-01-15'' 180000,
      example_big_commit ''big3'' ''2024-01-17'' 180000]"

text \<open>A day of ten commits and 150,000 estimated tokens.\<close>

definition example_large_day :: "commit list" where
  "example_large_day =
     [example_big_commit ''c0'' ''2024-01-15'' 44928,
      example_big_commit ''c1'' ''2024-01-15'' 44928,
      example_big_commit ''c2'' ''2024-01-15'' 44928,
      example_big_commit ''c3'' ''2024-01-15'' 44928,
      example_big_commit ''c4'' ''2024-01-15'' 44928,
      example_big_commit ''c5'' ''2024-01-15'' 44928,
      example_big_commit ''c6'' ''2024-01-15'' 44928,
      example_big_commit ''c7'' ''2024-01-15'' 44928,
      example_big_commit ''c8'' ''2024-01-15'' 44928,
      example_big_commit ''c9'' ''2024-01-15'' 44933]"

text \<open>
  That day, a day of one commit and 600,023 estimated tokens, and a day of one small
  commit: 750,057 estimated tokens in all.
\<close>

definition example_tier_3_commits :: "commit list" where
  "example_tier_3_commits =
     example_big_commit ''huge'' ''2024-01-16'' 1800000 #
     example_commit_at ''abc3'' (Some ''2024-01-14T10:00:00Z'') #
     example_large_day"

text \<open>
  A network that knows the files of one commit and answers 404 for every other, and
  a language model that raises for one repository and returns one change for every
  other.
\<close>

definition example_requests_get :: http_get where
  "example_requests_get u =
     (if u = ''https://api.github.com/repos/example/repo1/commits/abc1''
      then Inr \<lparr>status_code = 200,
                json_files = Some [example_raw_file ''Makefile'' ''+all: build'',
                                   example_raw_file ''logo.png'' []]\<rparr>
      else Inr \<lparr>status_code = 404, json_files = None\<rparr>)"

definition example_diffs :: diff_map where
  "example_diffs =
     [''abc1'' \<mapsto>
        [\<lparr>filename = ''Makefile'', patch = ''+all: build'', status = ''modified'',
          additions = 1, deletions = 0\<rparr>]]"

definition example_change :: change where
  "example_change =
     \<lparr>summary = ''Added user authentication'', category = ''feature'',
      contributing_commits = [''abc1'']\<rparr>"

definition example_analyze_batch :: "unit analyze_batch" where
  "example_analyze_batch repo_path batch_context repo_context =
     (if repo_path = ''broken/repo'' then Inl (Raised ''timeout'')
      else Inr (Some \<lparr>llm_changes = [example_change]\<rparr>))"

definition empty_state :: run_state where
  "empty_state = \<lparr>all_changes = [], batch_calls = []\<rparr>"

section \<open>Properties\<close>

subsection \<open>build_commit_context without a budget, and with a budget of 0\<close>

lemma files_loop_unbudgeted:
  "\<not> budget_given tb \<Longrightarrow> files_loop tb tot fs acc = acc @ concat (map file_text_full fs)"
  by (induction fs arbitrary: acc)
     (auto simp: budget_given_def over_budget_def Let_def split: option.splits)

lemma commit_text_unbudgeted:
  "\<not> budget_given tb \<Longrightarrow> commit_text_of tb dm tot c = full_commit_block dm c"
  by (simp add: commit_text_of_def full_commit_block_def files_loop_unbudgeted
        split: option.splits)

lemma over_budget_unbudgeted: "\<not> budget_given tb \<Longrightarrow> \<not> over_budget tb x"
  by (auto simp: budget_given_def over_budget_def split: option.splits)

lemma commits_loop_unbudgeted:
  "\<not> budget_given tb \<Longrightarrow>
   commits_loop tb dm cs parts tot = parts @ map (full_commit_block dm) cs"
  by (induction cs arbitrary: parts tot)
     (simp_all add: Let_def over_budget_unbudgeted commit_text_unbudgeted)

lemma build_unbudgeted:
  "\<not> budget_given tb \<Longrightarrow>
   build_commit_context cs dm tb =
     str_join ''\<newline>---\<newline>'' (map (full_commit_block dm) cs)"
  by (simp add: build_commit_context_def commits_loop_unbudgeted)


text \<open>
  C2. The specification: with a budget of 0 the builder returns the empty string, no
  commit fitting within a zero budget. The builder tests the budget by its truth
  value, \<^verbatim>\<open>if token_budget and ...\<close>, which is false for 0 as it is for \<^verbatim>\<open>None\<close>: with
  a budget of 0 no check is made, and a single commit with no diffs is rendered in
  full, 92 characters. With the budgets on either side of 0, 1 and -1, the same call
  returns the empty string.
\<close>

theorem zero_budget_renders_commit:
  "build_commit_context [example_commit_at ''abc1'' (Some ''2024-01-15T10:00:00Z'')]
     Map.empty (Some 0) =
   ''Commit: abc1\<newline>Author: developer1\<newline>Date: 2024-01-15T10:00:00Z\<newline>'' @
   ''Message: Add user authentication\<newline>'' \<and>
   build_commit_context [example_commit_at ''abc1'' (Some ''2024-01-15T10:00:00Z'')]
     Map.empty (Some 0) \<noteq> [] \<and>
   build_commit_context [example_commit_at ''abc1'' (Some ''2024-01-15T10:00:00Z'')]
     Map.empty (Some 1) = [] \<and>
   build_commit_context [example_commit_at ''abc1'' (Some ''2024-01-15T10:00:00Z'')]
     Map.empty (Some (- 1)) = []"
  by (simp add: build_commit_context_def Let_def over_budget_def commit_text_of_def
        commit_header_def example_commit_at_def dict_get_def estimate_tokens_def
        CHARS_PER_TOKEN_def)

text \<open>
  What a budget of 0 does for every input: the builder returns what it returns
  without a budget, which is empty for no other commit list than the empty one.
\<close>

lemma zero_budget_is_no_budget:
  "build_commit_context commits commit_diffs (Some 0) =
     build_commit_context commits commit_diffs None"
  by (simp add: build_unbudgeted budget_given_def)

lemma commit_header_length: "35 \<le> length (commit_header c)"
  by (simp add: commit_header_def)

lemma files_loop_append: "files_loop tb tot fs acc = acc @ files_loop tb tot fs []"
proof (induction fs arbitrary: acc)
  case Nil
  then show ?case by simp
next
  case (Cons f fs)
  let ?t = "if over_budget tb (tot + estimate_tokens (file_text_full f))
            then file_text_omitted f else file_text_full f"
  have "files_loop tb tot (f # fs) acc = files_loop tb tot fs (acc @ ?t)"
    by (simp add: Let_def)
  also have "\<dots> = (acc @ ?t) @ files_loop tb tot fs []" by (rule Cons.IH)
  also have "\<dots> = acc @ files_loop tb tot fs ?t"
    using Cons.IH[of ?t] by simp
  also have "files_loop tb tot fs ?t = files_loop tb tot (f # fs) []"
    by (simp add: Let_def)
  finally show ?case .
qed

lemma commit_text_tokens: "11 \<le> estimate_tokens (commit_text_of tb dm tot c)"
proof -
  have "35 \<le> length (commit_text_of tb dm tot c)"
  proof (cases "dm (dict_get (sha c) '''')")
    case None
    then show ?thesis using commit_header_length[of c] by (simp add: commit_text_of_def)
  next
    case (Some files)
    then have "commit_text_of tb dm tot c =
        commit_header c @ files_loop tb tot
          (if budget_given tb then sort_key get_file_size files else files) []"
      using files_loop_append[of tb tot _ "commit_header c"] by (simp add: commit_text_of_def)
    then show ?thesis using commit_header_length[of c] by simp
  qed
  then show ?thesis
    by (simp add: estimate_tokens_def CHARS_PER_TOKEN_def)
qed

lemma str_join_nonempty: "p \<noteq> [] \<Longrightarrow> str_join sep (p # ps) \<noteq> []"
  by (cases ps) simp_all

lemma full_commit_block_nonempty: "full_commit_block dm c \<noteq> []"
  using commit_header_length[of c] by (auto simp: full_commit_block_def)

lemma zero_budget_nonempty:
  "commits \<noteq> [] \<Longrightarrow> build_commit_context commits commit_diffs (Some 0) \<noteq> []"
  by (cases commits)
     (simp_all add: build_unbudgeted budget_given_def str_join_nonempty
        full_commit_block_nonempty del: str_join.simps)

text \<open>
  Every other budget up to 10, the negative ones too, does give the empty string: the
  text of a commit has at least 35 characters, 11 estimated tokens.
\<close>

lemma build_small_budget:
  assumes "b \<noteq> 0" "b \<le> 10"
  shows "build_commit_context commits commit_diffs (Some b) = []"
proof (cases commits)
  case Nil
  then show ?thesis by (simp add: build_commit_context_def)
next
  case (Cons c cs)
  from commit_text_tokens[of "Some b" commit_diffs 0 c] assms
  have "over_budget (Some b) (0 + estimate_tokens (commit_text_of (Some b) commit_diffs 0 c))"
    by (simp add: over_budget_def)
  with Cons show ?thesis
    by (simp add: build_commit_context_def Let_def)
qed

text \<open>
  The caller of line 372 passes \<^verbatim>\<open>TIER_1_THRESHOLD // len(day_commits)\<close>, which is 0
  for a day of more than 100,000 commits: the day is then rendered without a budget.
\<close>

lemma large_day_zero_budget:
  assumes "100000 < length day_commits"
  shows "build_commit_context day_commits commit_diffs
           (Some (TIER_1_THRESHOLD div int (length day_commits))) =
         build_commit_context day_commits commit_diffs None"
proof -
  from assms have "TIER_1_THRESHOLD div int (length day_commits) = 0"
    by (simp add: TIER_1_THRESHOLD_def)
  then show ?thesis by (simp add: build_unbudgeted budget_given_def)
qed

subsection \<open>group_commits_by_day\<close>

lemma bucket_append_keys:
  "map fst (bucket_append k c bd) = (if k \<in> fst ` set bd then map fst bd else map fst bd @ [k])"
  by (induction bd) force+

lemma bucket_append_distinct:
  "distinct (map fst bd) \<Longrightarrow> distinct (map fst (bucket_append k c bd))"
  by (simp add: bucket_append_keys)

lemma bucket_append_map_of:
  "map_of (bucket_append k c bd) k' =
     (if k' = k then Some ((case map_of bd k of None \<Rightarrow> [] | Some cs \<Rightarrow> cs) @ [c])
      else map_of bd k')"
  by (induction bd) auto

lemma bucket_append_mset:
  "mset (concat (map snd (bucket_append k c bd))) = mset (concat (map snd bd)) + {#c#}"
  by (induction bd) auto

lemma group_loop_distinct:
  "distinct (map fst bd) \<Longrightarrow> distinct (map fst (group_loop p cs bd))"
  by (induction cs arbitrary: bd) (simp_all add: bucket_append_distinct)

lemma group_loop_mset:
  "mset (concat (map snd (group_loop p cs bd))) = mset (concat (map snd bd)) + mset cs"
  by (induction cs arbitrary: bd) (simp_all add: bucket_append_mset)

lemma group_loop_map_of:
  "map_of (group_loop p cs bd) k =
     (if map_of bd k = None \<and> filter (\<lambda>c. day_key_of p c = k) cs = [] then None
      else Some ((case map_of bd k of None \<Rightarrow> [] | Some b \<Rightarrow> b) @
                 filter (\<lambda>c. day_key_of p c = k) cs))"
proof (induction cs arbitrary: bd)
  case Nil
  then show ?case by (simp split: option.splits)
next
  case (Cons c cs)
  show ?case
    by (simp add: Cons.IH bucket_append_map_of split: option.splits)
qed

lemma group_map_of:
  "map_of (group_commits_by_day p cs) k =
     (if filter (\<lambda>c. day_key_of p c = k) cs = [] then None
      else Some (filter (\<lambda>c. day_key_of p c = k) cs))"
  by (simp add: group_commits_by_day_def group_loop_map_of)

lemma group_distinct: "distinct (map fst (group_commits_by_day p cs))"
  by (simp add: group_commits_by_day_def group_loop_distinct)

lemma group_bucket:
  assumes "(k, b) \<in> set (group_commits_by_day p cs)"
  shows "b = filter (\<lambda>c. day_key_of p c = k) cs \<and> b \<noteq> []"
proof -
  from assms group_distinct have "map_of (group_commits_by_day p cs) k = Some b"
    by (metis map_of_is_SomeI)
  then show ?thesis by (simp add: group_map_of split: if_splits)
qed

lemma day_key_unknown:
  "timestamp c = None \<or> (\<exists>ts. timestamp c = Some ts \<and> iso_day (replace_Z ts) = None)
   \<Longrightarrow> day_key_of iso_day c = ''unknown''"
  by (auto simp: day_key_of_def dict_get_def)

text \<open>
  C4. Grouping by day returns for every list of commits: no bucket for the empty
  list; buckets with distinct keys whose concatenation has every commit of the input
  exactly as often as the input has it; in each bucket the commits of the input with
  that day key, in input order; and in the bucket \<open>unknown\<close> every commit that has
  no timestamp or whose timestamp the parser rejects.
\<close>

theorem group_commits_by_day_partition:
  "group_commits_by_day iso_day [] = [] \<and>
   mset (concat (map snd (group_commits_by_day iso_day commits))) = mset commits \<and>
   distinct (map fst (group_commits_by_day iso_day commits)) \<and>
   (\<forall>(day, bucket) \<in> set (group_commits_by_day iso_day commits).
      bucket = filter (\<lambda>c. day_key_of iso_day c = day) commits) \<and>
   (\<forall>c \<in> set commits.
      timestamp c = None \<or> (\<exists>ts. timestamp c = Some ts \<and> iso_day (replace_Z ts) = None) \<longrightarrow>
      (\<exists>bucket. map_of (group_commits_by_day iso_day commits) ''unknown'' = Some bucket \<and>
                c \<in> set bucket))"
proof (intro conjI)
  show "group_commits_by_day iso_day [] = []" by (simp add: group_commits_by_day_def)
  show "mset (concat (map snd (group_commits_by_day iso_day commits))) = mset commits"
    by (simp add: group_commits_by_day_def group_loop_mset)
  show "distinct (map fst (group_commits_by_day iso_day commits))" by (rule group_distinct)
  show "\<forall>(day, bucket) \<in> set (group_commits_by_day iso_day commits).
      bucket = filter (\<lambda>c. day_key_of iso_day c = day) commits"
    using group_bucket by blast
  show "\<forall>c \<in> set commits.
      timestamp c = None \<or> (\<exists>ts. timestamp c = Some ts \<and> iso_day (replace_Z ts) = None) \<longrightarrow>
      (\<exists>bucket. map_of (group_commits_by_day iso_day commits) ''unknown'' = Some bucket \<and>
                c \<in> set bucket)"
  proof (intro ballI impI)
    fix c assume c: "c \<in> set commits"
      and "timestamp c = None \<or> (\<exists>ts. timestamp c = Some ts \<and> iso_day (replace_Z ts) = None)"
    then have k: "day_key_of iso_day c = ''unknown''" by (rule_tac day_key_unknown)
    with c have "c \<in> set (filter (\<lambda>c. day_key_of iso_day c = ''unknown'') commits)" by simp
    then show "\<exists>bucket. map_of (group_commits_by_day iso_day commits) ''unknown'' = Some bucket \<and>
                c \<in> set bucket"
      by (auto simp: group_map_of filter_empty_conv)
  qed
qed

text \<open>
  The buckets of five commits, one with no timestamp and one with a timestamp that
  does not parse.
\<close>

lemma example_groups:
  "group_commits_by_day example_iso_day example_commits =
     [(''2024-01-15'', [example_commit_at ''abc1'' (Some ''2024-01-15T10:00:00Z''),
                        example_commit_at ''abc5'' (Some ''2024-01-15T18:00:00Z'')]),
      (''unknown'', [example_commit_at ''abc2'' None,
                     example_commit_at ''abc4'' (Some ''yesterday'')]),
      (''2024-01-16'', [example_commit_at ''abc3'' (Some ''2024-01-16T10:00:00Z'')])]"
  by (simp add: group_commits_by_day_def example_commits_def day_key_of_def dict_get_def
        example_commit_at_def replace_Z_def example_iso_day_def)

theorem group_commits_by_day_partition_witness:
  "example_commit_at ''abc2'' None \<in> set example_commits \<and>
   timestamp (example_commit_at ''abc2'' None) = None \<and>
   (\<exists>bucket. map_of (group_commits_by_day example_iso_day example_commits) ''unknown'' =
        Some bucket \<and>
      example_commit_at ''abc2'' None \<in> set bucket) \<and>
   mset (concat (map snd (group_commits_by_day example_iso_day example_commits))) =
     mset example_commits"
proof -
  have m: "example_commit_at ''abc2'' None \<in> set example_commits"
    by (simp add: example_commits_def)
  have t: "timestamp (example_commit_at ''abc2'' None) = None"
    by (simp add: example_commit_at_def)
  from group_commits_by_day_partition[of example_iso_day example_commits] m t
  show ?thesis by blast
qed

subsection \<open>The files of a commit: is_non_code_file and the loop of fetch_commit_diff\<close>

lemma files_scan_eq:
  "files_scan files acc =
     acc @ map processed_entry
             (filter (\<lambda>f. \<not> is_non_code_file (dict_get (raw_filename f) '''')) files)"
  by (induction files arbitrary: acc) auto

lemma str_split_no_sep: "d \<notin> set s \<Longrightarrow> str_split d s = [s]"
  by (induction s) auto

lemma str_split_sep: "d \<in> set s \<Longrightarrow> \<exists>w w' ws. str_split d s = w # w' # ws"
proof (induction s)
  case Nil
  then show ?case by simp
next
  case (Cons c s)
  show ?case
  proof (cases "d \<in> set s")
    case True
    with Cons.IH obtain w w' ws where "str_split d s = w # w' # ws" by blast
    then show ?thesis by auto
  next
    case False
    with Cons.prems have "c = d" by simp
    with False show ?thesis by (simp add: str_split_no_sep)
  qed
qed

lemma last_str_split:
  "last (str_split d s) = rev (takeWhile (\<lambda>c. c \<noteq> d) (rev s))"
proof (induction s)
  case Nil
  then show ?case by simp
next
  case (Cons c s)
  show ?case
  proof (cases "d \<in> set s")
    case True
    then obtain w w' ws where ws: "str_split d s = w # w' # ws"
      using str_split_sep by blast
    from True have tw:
      "takeWhile (\<lambda>c. c \<noteq> d) (rev s @ [c]) = takeWhile (\<lambda>c. c \<noteq> d) (rev s)"
      by (intro takeWhile_append1[where x = d]) auto
    from ws Cons.IH show ?thesis by (simp add: tw)
  next
    case False
    then have tw:
      "takeWhile (\<lambda>c. c \<noteq> d) (rev s @ [c]) = rev s @ takeWhile (\<lambda>c. c \<noteq> d) [c]"
      by (intro takeWhile_append2) auto
    from False show ?thesis by (simp add: str_split_no_sep tw)
  qed
qed

lemma empty_not_non_code: "[] \<notin> NON_CODE_EXTENSIONS"
  by (simp add: NON_CODE_EXTENSIONS_def)

lemma is_non_code_file_ext: "is_non_code_file fname = extension_is_non_code fname"
  by (simp add: is_non_code_file_def extension_is_non_code_def final_extension_def
        last_str_split empty_not_non_code)

lemma processed_entry_filename: "filename (processed_entry f) = dict_get (raw_filename f) ''''"
  by (simp add: processed_entry_def Let_def)

lemma example_non_code:
  "is_non_code_file ''IMAGE.PNG''" "\<not> is_non_code_file ''Makefile''"
  "is_non_code_file ''dist/app.tar.gz''" "\<not> is_non_code_file ''src/app.py''"
  "is_non_code_file ''Cargo.lock''"
  by code_simp+

text \<open>
  C5. For every list of raw file entries, no entry that the loop returns has a file
  name whose final extension, lower-cased, is in the non-code set; the names of the
  entries returned are the names of the input, in order, without those whose
  extension is in the set; and a file name with no extension always has an entry.
\<close>

theorem non_code_files_dropped_others_kept:
  "(\<forall>e \<in> set (files_scan files []). \<not> extension_is_non_code (filename e)) \<and>
   map filename (files_scan files []) =
     filter (\<lambda>n. \<not> extension_is_non_code n) (map (\<lambda>f. dict_get (raw_filename f) '''') files) \<and>
   (\<forall>f \<in> set files. final_extension (dict_get (raw_filename f) '''') = None \<longrightarrow>
      dict_get (raw_filename f) '''' \<in> filename ` set (files_scan files []))"
proof (intro conjI)
  show "\<forall>e \<in> set (files_scan files []). \<not> extension_is_non_code (filename e)"
    by (auto simp: files_scan_eq processed_entry_filename is_non_code_file_ext)
  show "map filename (files_scan files []) =
     filter (\<lambda>n. \<not> extension_is_non_code n) (map (\<lambda>f. dict_get (raw_filename f) '''') files)"
    by (simp add: files_scan_eq filter_map o_def processed_entry_filename is_non_code_file_ext)
  show "\<forall>f \<in> set files. final_extension (dict_get (raw_filename f) '''') = None \<longrightarrow>
      dict_get (raw_filename f) '''' \<in> filename ` set (files_scan files [])"
    by (force simp: files_scan_eq processed_entry_filename is_non_code_file_ext
          extension_is_non_code_def image_iff)
qed

theorem non_code_files_dropped_others_kept_witness:
  "final_extension ''Makefile'' = None \<and>
   ''Makefile'' \<in> filename ` set (files_scan example_raw_files []) \<and>
   map filename (files_scan example_raw_files []) = [''Makefile'', ''src/app.py'']"
proof -
  have names: "map (\<lambda>f. dict_get (raw_filename f) '''') example_raw_files =
      [''IMAGE.PNG'', ''Makefile'', ''dist/app.tar.gz'', ''src/app.py'', ''Cargo.lock'']"
    by (simp add: example_raw_files_def example_raw_file_def dict_get_def)
  have ext: "final_extension ''Makefile'' = None"
    by (simp add: final_extension_def)
  have mem: "example_raw_file ''Makefile'' ''+all: build'' \<in> set example_raw_files"
    by (simp add: example_raw_files_def)
  have nm: "dict_get (raw_filename (example_raw_file ''Makefile'' ''+all: build'')) '''' =
      ''Makefile''"
    by (simp add: example_raw_file_def dict_get_def)
  from non_code_files_dropped_others_kept[of example_raw_files] have
    eq: "map filename (files_scan example_raw_files []) =
       filter (\<lambda>n. \<not> extension_is_non_code n)
         (map (\<lambda>f. dict_get (raw_filename f) '''') example_raw_files)"
    and kept: "\<forall>f \<in> set example_raw_files.
       final_extension (dict_get (raw_filename f) '''') = None \<longrightarrow>
       dict_get (raw_filename f) '''' \<in> filename ` set (files_scan example_raw_files [])"
    by blast+
  from eq have "map filename (files_scan example_raw_files []) = [''Makefile'', ''src/app.py'']"
    by (simp add: names is_non_code_file_ext[symmetric] example_non_code)
  moreover from kept mem ext nm
  have "''Makefile'' \<in> filename ` set (files_scan example_raw_files [])"
    by metis
  ultimately show ?thesis using ext by simp
qed

text \<open>
  C6. The loop returns one entry for each file it keeps, in order, under the name of
  the file; when the patch of the file has more than 90,000 characters, the patch of
  its entry is the first 90,000 characters followed by the truncation marker, and
  for a patch of 95,000 characters that is 90,000 characters and the marker.
\<close>

theorem oversized_patch_truncated:
  "length (files_scan files []) =
     length (filter (\<lambda>f. \<not> is_non_code_file (dict_get (raw_filename f) '''')) files) \<and>
   (\<forall>i < length (files_scan files []).
      let f = filter (\<lambda>f. \<not> is_non_code_file (dict_get (raw_filename f) '''')) files ! i;
          p = dict_get (raw_patch f) ''''
      in filename (files_scan files [] ! i) = dict_get (raw_filename f) '''' \<and>
         (length p > 90000 \<longrightarrow>
            patch (files_scan files [] ! i) = take 90000 p @ truncation_marker) \<and>
         (length p = 95000 \<longrightarrow>
            length (patch (files_scan files [] ! i)) = 90000 + length truncation_marker))"
  by (simp add: files_scan_eq Let_def processed_entry_def MAX_FILE_DIFF_SIZE_def)

theorem oversized_patch_truncated_witness:
  "patch (files_scan example_raw_files [] ! 1) =
     replicate 90000 CHR ''+'' @ truncation_marker \<and>
   length (patch (files_scan example_raw_files [] ! 1)) = 90146"
proof -
  have kept:
    "filter (\<lambda>f. \<not> is_non_code_file (dict_get (raw_filename f) '''')) example_raw_files =
      [example_raw_file ''Makefile'' ''+all: build'',
       example_raw_file ''src/app.py'' (replicate 95000 CHR ''+'')]"
    by (simp add: example_raw_files_def example_raw_file_def dict_get_def example_non_code)
  have p:
    "dict_get (raw_patch (example_raw_file ''src/app.py'' (replicate 95000 CHR ''+''))) '''' =
      replicate 95000 CHR ''+''"
    by (simp add: example_raw_file_def dict_get_def)
  from oversized_patch_truncated[of example_raw_files]
  have len: "length (files_scan example_raw_files []) = 2"
    and nth: "\<forall>i < length (files_scan example_raw_files []).
      let f = filter (\<lambda>f. \<not> is_non_code_file (dict_get (raw_filename f) ''''))
                example_raw_files ! i;
          p = dict_get (raw_patch f) ''''
      in filename (files_scan example_raw_files [] ! i) = dict_get (raw_filename f) '''' \<and>
         (length p > 90000 \<longrightarrow>
            patch (files_scan example_raw_files [] ! i) = take 90000 p @ truncation_marker) \<and>
         (length p = 95000 \<longrightarrow>
            length (patch (files_scan example_raw_files [] ! i)) =
              90000 + length truncation_marker)"
    by (simp_all add: kept)
  from nth len have
    "let f = filter (\<lambda>f. \<not> is_non_code_file (dict_get (raw_filename f) ''''))
               example_raw_files ! 1;
         p = dict_get (raw_patch f) ''''
     in filename (files_scan example_raw_files [] ! 1) = dict_get (raw_filename f) '''' \<and>
        (length p > 90000 \<longrightarrow>
           patch (files_scan example_raw_files [] ! 1) = take 90000 p @ truncation_marker) \<and>
        (length p = 95000 \<longrightarrow>
           length (patch (files_scan example_raw_files [] ! 1)) =
             90000 + length truncation_marker)"
    by simp
  then show ?thesis
    by (simp add: kept p Let_def truncation_marker_def)
qed

subsection \<open>build_commit_context under a budget\<close>

lemma files_loop_budgeted:
  "b \<noteq> 0 \<Longrightarrow>
   files_loop (Some b) tot fs acc = acc @ concat (map (file_text_under b tot) fs)"
  by (induction fs arbitrary: acc)
     (auto simp: over_budget_def Let_def file_text_under_def)

lemma insort_key_int: "insort_key (\<lambda>x. int (h x)) a xs = insort_key h a xs"
  by (induction xs) simp_all

lemma sort_key_int: "sort_key (\<lambda>x. int (h x)) xs = sort_key h xs"
  by (induction xs) (simp_all add: insort_key_int)

lemma get_file_size_length: "get_file_size = (\<lambda>f. int (length (patch f)))"
  by (rule ext) (simp add: get_file_size_def)

lemma sort_by_file_size:
  "sort_key get_file_size files = sort_key (\<lambda>f. length (patch f)) files"
  unfolding get_file_size_length by (rule sort_key_int)

lemma commit_text_budgeted:
  "b \<noteq> 0 \<Longrightarrow> commit_text_of (Some b) dm tot c = budgeted_commit_text b dm tot c"
  by (simp add: commit_text_of_def budgeted_commit_text_def budget_given_def
        files_loop_budgeted sort_by_file_size split: option.splits)

lemma commits_loop_budgeted:
  "b \<noteq> 0 \<Longrightarrow>
   commits_loop (Some b) dm cs parts tot = parts @ budgeted_parts b dm tot cs"
  by (induction cs arbitrary: parts tot)
     (simp_all add: Let_def over_budget_def commit_text_budgeted)

lemma build_budgeted:
  "b \<noteq> 0 \<Longrightarrow>
   build_commit_context cs dm (Some b) = str_join ''\<newline>---\<newline>'' (budgeted_parts b dm 0 cs)"
  by (simp add: build_commit_context_def commits_loop_budgeted)

lemma budgeted_parts_append:
  "budgeted_parts b dm tot (pre @ cs) =
     (let parts = budgeted_parts b dm tot pre
      in if length parts = length pre
         then parts @ budgeted_parts b dm (tot + sum_list (map estimate_tokens parts)) cs
         else parts)"
proof (induction pre arbitrary: tot)
  case Nil
  then show ?case by simp
next
  case (Cons c pre)
  show ?case
    by (simp add: Let_def Cons.IH add.assoc)
qed

lemma estimate_tokens_append: "estimate_tokens ys \<le> estimate_tokens (xs @ ys)"
  by (simp add: estimate_tokens_def CHARS_PER_TOKEN_def zdiv_mono1)

lemma length_concat_sort_key:
  "length (concat (map g (sort_key k xs))) = length (concat (map g xs))"
proof -
  have "sum_list (map (length \<circ> g) (sort_key k xs)) = sum_list (map (length \<circ> g) xs)"
    by (rule arg_cong[where f=sum_mset, of "mset (map (length \<circ> g) (sort_key k xs))"
          "mset (map (length \<circ> g) xs)", unfolded sum_mset_sum_list]) simp
  then show ?thesis by (simp add: length_concat)
qed

lemma estimate_tokens_concat_sort_key:
  "estimate_tokens (concat (map g (sort_key k xs))) = estimate_tokens (concat (map g xs))"
  by (simp add: estimate_tokens_def length_concat_sort_key)

lemma budgeted_commit_text_all_fit:
  assumes "dm (dict_get (sha c) '''') = Some files"
    and "\<forall>f \<in> set files. tot + estimate_tokens (file_text_full f) \<le> b"
  shows "budgeted_commit_text b dm tot c =
           commit_header c @ concat (map file_text_full (sort_key (\<lambda>f. length (patch f)) files))"
proof -
  have m: "map (file_text_under b tot) (sort_key (\<lambda>f. length (patch f)) files) =
        map file_text_full (sort_key (\<lambda>f. length (patch f)) files)"
    using assms(2) by (intro map_cong refl) (auto simp: file_text_under_def)
  show ?thesis by (simp only: budgeted_commit_text_def assms(1) option.case m)
qed

lemma budgeted_parts_dropped:
  assumes "dm (dict_get (sha c) '''') = Some files"
    and "\<forall>f \<in> set files. tot + estimate_tokens (file_text_full f) \<le> b"
    and "tot + estimate_tokens (concat (map file_text_full files)) > b"
  shows "budgeted_parts b dm tot (c # cs) = []"
proof -
  let ?body = "concat (map file_text_full (sort_key (\<lambda>f. length (patch f)) files))"
  have "estimate_tokens (concat (map file_text_full files)) = estimate_tokens ?body"
    by (simp add: estimate_tokens_concat_sort_key)
  also have "\<dots> \<le> estimate_tokens (commit_header c @ ?body)"
    by (rule estimate_tokens_append)
  also have "commit_header c @ ?body = budgeted_commit_text b dm tot c"
    using budgeted_commit_text_all_fit[where dm=dm and c=c and files=files and tot=tot and b=b]
      assms(1,2) by simp
  finally have "tot + estimate_tokens (budgeted_commit_text b dm tot c) > b"
    using assms(3) by simp
  then show ?thesis by (simp add: Let_def)
qed

lemma build_dropped:
  assumes b: "b \<noteq> 0"
    and "dm (dict_get (sha c) '''') = Some files"
    and "\<forall>f \<in> set files.
           sum_list (map estimate_tokens (commits_loop (Some b) dm pre [] 0)) +
           estimate_tokens (file_text_full f) \<le> b"
    and "sum_list (map estimate_tokens (commits_loop (Some b) dm pre [] 0)) +
         estimate_tokens (concat (map file_text_full files)) > b"
  shows "build_commit_context (pre @ c # cs) dm (Some b) = build_commit_context pre dm (Some b)"
proof -
  let ?parts = "budgeted_parts b dm 0 pre"
  have p: "commits_loop (Some b) dm pre [] 0 = ?parts"
    by (simp add: commits_loop_budgeted[OF b])
  have "budgeted_parts b dm (0 + sum_list (map estimate_tokens ?parts)) (c # cs) = []"
    using budgeted_parts_dropped[where dm=dm and c=c and files=files and b=b and cs=cs
        and tot="0 + sum_list (map estimate_tokens ?parts)"] assms(2,3,4) p
    by simp
  then have "budgeted_parts b dm 0 (pre @ c # cs) = ?parts"
    unfolding budgeted_parts_append[of b dm 0 pre "c # cs"] by (simp add: Let_def)
  then show ?thesis by (simp add: build_budgeted[OF b])
qed

lemma budgeted_parts_sum:
  "tot \<le> b \<Longrightarrow> tot + sum_list (map estimate_tokens (budgeted_parts b dm tot cs)) \<le> b"
proof (induction cs arbitrary: tot)
  case Nil
  then show ?case by simp
next
  case (Cons c cs)
  show ?case
  proof (cases "tot + estimate_tokens (budgeted_commit_text b dm tot c) > b")
    case True
    with Cons.prems show ?thesis by (simp add: Let_def)
  next
    case False
    then have "tot + estimate_tokens (budgeted_commit_text b dm tot c) \<le> b" by simp
    from Cons.IH[OF this] False show ?thesis by (simp add: Let_def add.assoc)
  qed
qed


text \<open>
  C10, amended. Under a positive budget the builder returns the join of the commits
  appended as follows. The text of a commit is composed from its header and its files,
  smallest patch first; each file is rendered in full when the running total plus the
  size of that file's own block is within the budget, and replaced by the notice of
  omission otherwise; the blocks already composed for the commit are not counted. The
  running total is the sum of the sizes of the commits appended before: it advances at
  commit boundaries only. The commit is appended only when the running total plus the
  size of its whole text is within the budget, so the sizes of the appended commits
  never add up to more than the budget. Files that each fit on their own are all
  composed in full; when their combined size exceeds what remains of the budget, the
  commit is not appended and the builder stops there: it returns what it returns for
  the commits before, and neither that commit nor a later one is in the context.
\<close>

theorem budgeted_build_appends_whole_commits_that_fit:
  assumes "0 < b"
  shows
    "build_commit_context commits commit_diffs (Some b) =
       str_join ''\<newline>---\<newline>'' (budgeted_parts b commit_diffs 0 commits) \<and>
     sum_list (map estimate_tokens (commits_loop (Some b) commit_diffs commits [] 0)) \<le> b \<and>
     (commit_diffs (dict_get (sha c) '''') = Some files \<and>
      (\<forall>f \<in> set files. total_tokens + estimate_tokens (file_text_full f) \<le> b) \<longrightarrow>
        commit_text_of (Some b) commit_diffs total_tokens c =
          commit_header c @
          concat (map file_text_full (sort_key (\<lambda>f. length (patch f)) files))) \<and>
     (let appended =
            sum_list (map estimate_tokens (commits_loop (Some b) commit_diffs pre [] 0))
      in commit_diffs (dict_get (sha c) '''') = Some files \<and>
         (\<forall>f \<in> set files. appended + estimate_tokens (file_text_full f) \<le> b) \<and>
         appended + estimate_tokens (concat (map file_text_full files)) > b \<longrightarrow>
           build_commit_context (pre @ c # rest) commit_diffs (Some b) =
             build_commit_context pre commit_diffs (Some b))"
proof (intro conjI impI)
  from assms have b: "b \<noteq> 0" and b0: "0 \<le> b" by simp_all
  show "build_commit_context commits commit_diffs (Some b) =
       str_join ''\<newline>---\<newline>'' (budgeted_parts b commit_diffs 0 commits)"
    by (rule build_budgeted[OF b])
  show "sum_list (map estimate_tokens (commits_loop (Some b) commit_diffs commits [] 0)) \<le> b"
    using budgeted_parts_sum[OF b0, of commit_diffs commits]
    by (simp add: commits_loop_budgeted[OF b])
  show "commit_text_of (Some b) commit_diffs total_tokens c =
          commit_header c @
          concat (map file_text_full (sort_key (\<lambda>f. length (patch f)) files))"
    if "commit_diffs (dict_get (sha c) '''') = Some files \<and>
      (\<forall>f \<in> set files. total_tokens + estimate_tokens (file_text_full f) \<le> b)"
    using that budgeted_commit_text_all_fit[where dm=commit_diffs and c=c and files=files
        and tot=total_tokens and b=b]
    by (simp add: commit_text_budgeted[OF b])
  show "let appended =
            sum_list (map estimate_tokens (commits_loop (Some b) commit_diffs pre [] 0))
      in commit_diffs (dict_get (sha c) '''') = Some files \<and>
         (\<forall>f \<in> set files. appended + estimate_tokens (file_text_full f) \<le> b) \<and>
         appended + estimate_tokens (concat (map file_text_full files)) > b \<longrightarrow>
           build_commit_context (pre @ c # rest) commit_diffs (Some b) =
             build_commit_context pre commit_diffs (Some b)"
    unfolding Let_def
    using build_dropped[where b=b and dm=commit_diffs and c=c and files=files and pre=pre
        and cs=rest, OF b]
    by blast
qed

lemma example_file_tokens:
  "estimate_tokens (file_text_full (example_file ''a.py'' (replicate 59 c))) = 30"
  "estimate_tokens (file_text_full (example_file ''b.py'' (replicate 59 c))) = 30"
  by (simp_all add: estimate_tokens_def CHARS_PER_TOKEN_def file_text_full_def example_file_def
        code_fence_def)

text \<open>
  Two runs. Under a budget of 40, a commit of two files of 30 estimated tokens each,
  with nothing appended before: each file fits and both are composed in full, together
  they do not fit, and the context is empty, the commit after it dropped as well. Under
  a budget of 150, a commit of 24
  tokens, then a commit of two files, then a third commit: with 24 tokens appended the
  file of 30 tokens is rendered in full and the one of 211 tokens is replaced by the
  notice, the second commit, 114 tokens, is appended, and the third, 24 tokens, is not.
\<close>

theorem budgeted_build_appends_whole_commits_that_fit_witness:
  "commit_text_of (Some 40)
     [''abc1'' \<mapsto> [example_file ''a.py'' (replicate 59 CHR ''+''),
                    example_file ''b.py'' (replicate 59 CHR ''-'')]] 0
     (example_commit_at ''abc1'' None) =
     commit_header (example_commit_at ''abc1'' None) @
     file_text_full (example_file ''a.py'' (replicate 59 CHR ''+'')) @
     file_text_full (example_file ''b.py'' (replicate 59 CHR ''-'')) \<and>
   build_commit_context [example_commit_at ''abc1'' None, example_commit_at ''abc2'' None]
     [''abc1'' \<mapsto> [example_file ''a.py'' (replicate 59 CHR ''+''),
                    example_file ''b.py'' (replicate 59 CHR ''-'')]] (Some 40) = [] \<and>
   build_commit_context
     [example_commit_at ''abc2'' None, example_commit_at ''abc1'' None,
      example_commit_at ''abc3'' None]
     [''abc1'' \<mapsto> [example_file ''big.py'' (replicate 600 CHR ''+''),
                    example_file ''a.py'' (replicate 59 CHR ''-'')]] (Some 150) =
     commit_header (example_commit_at ''abc2'' None) @ ''\<newline>---\<newline>'' @
     commit_header (example_commit_at ''abc1'' None) @
     file_text_full (example_file ''a.py'' (replicate 59 CHR ''-'')) @
     file_text_omitted (example_file ''big.py'' (replicate 600 CHR ''+'')) \<and>
   sum_list (map estimate_tokens (commits_loop (Some 150)
     [''abc1'' \<mapsto> [example_file ''big.py'' (replicate 600 CHR ''+''),
                    example_file ''a.py'' (replicate 59 CHR ''-'')]]
     [example_commit_at ''abc2'' None, example_commit_at ''abc1'' None,
      example_commit_at ''abc3'' None] [] 0)) \<le> 150"
proof -
  let ?c = "example_commit_at ''abc1'' None"
  let ?fs = "[example_file ''a.py'' (replicate 59 CHR ''+''),
              example_file ''b.py'' (replicate 59 CHR ''-'')]"
  let ?dm = "[''abc1'' \<mapsto> ?fs]"
  let ?dm' = "[''abc1'' \<mapsto> [example_file ''big.py'' (replicate 600 CHR ''+''),
                    example_file ''a.py'' (replicate 59 CHR ''-'')]]"
  let ?cs = "[example_commit_at ''abc2'' None, example_commit_at ''abc1'' None,
      example_commit_at ''abc3'' None]"
  have pos: "(0::int) < 40" "(0::int) < 150" by simp_all
  have look: "?dm (dict_get (sha ?c) '''') = Some ?fs"
    by (simp add: example_commit_at_def dict_get_def)
  have fit: "\<forall>f \<in> set ?fs. 0 + estimate_tokens (file_text_full f) \<le> 40"
    by (simp add: example_file_tokens)
  have over: "0 + estimate_tokens (concat (map file_text_full ?fs)) > 40"
    by (simp add: estimate_tokens_def CHARS_PER_TOKEN_def file_text_full_def example_file_def
          code_fence_def)
  note at_40 = budgeted_build_appends_whole_commits_that_fit[where b=40 and commit_diffs="?dm"
      and c="?c" and files="?fs" and total_tokens=0 and pre="[]"
      and rest="[example_commit_at ''abc2'' None]",
      OF pos(1)]
  have composed_if: "?dm (dict_get (sha ?c) '''') = Some ?fs \<and>
        (\<forall>f \<in> set ?fs. 0 + estimate_tokens (file_text_full f) \<le> 40) \<longrightarrow>
        commit_text_of (Some 40) ?dm 0 ?c =
          commit_header ?c @
          concat (map file_text_full (sort_key (\<lambda>f. length (patch f)) ?fs))"
    by (rule at_40[THEN conjunct2, THEN conjunct2, THEN conjunct1])
  have sorted: "sort_key (\<lambda>f. length (patch f)) ?fs = ?fs"
    by (simp add: example_file_def)
  have "commit_text_of (Some 40) ?dm 0 ?c =
          commit_header ?c @
          concat (map file_text_full (sort_key (\<lambda>f. length (patch f)) ?fs))"
    by (rule mp[OF composed_if]) (intro conjI look fit)
  then have composed: "commit_text_of (Some 40) ?dm 0 ?c =
      commit_header ?c @ file_text_full (example_file ''a.py'' (replicate 59 CHR ''+'')) @
      file_text_full (example_file ''b.py'' (replicate 59 CHR ''-''))"
    unfolding sorted by simp
  have step: "?dm (dict_get (sha ?c) '''') = Some ?fs \<and>
        (\<forall>f \<in> set ?fs. 0 + estimate_tokens (file_text_full f) \<le> 40) \<and>
        0 + estimate_tokens (concat (map file_text_full ?fs)) > 40 \<longrightarrow>
        build_commit_context ([] @ ?c # [example_commit_at ''abc2'' None]) ?dm (Some 40) =
          build_commit_context [] ?dm (Some 40)"
    using at_40[THEN conjunct2, THEN conjunct2, THEN conjunct2]
    by (simp only: Let_def commits_loop.simps list.map sum_list.Nil)
  have "build_commit_context ([] @ ?c # [example_commit_at ''abc2'' None]) ?dm (Some 40) =
          build_commit_context [] ?dm (Some 40)"
    by (rule mp[OF step]) (intro conjI look fit over)
  then have dropped:
    "build_commit_context [?c, example_commit_at ''abc2'' None] ?dm (Some 40) = []"
    by (simp add: build_commit_context_def)
  note at_150 = budgeted_build_appends_whole_commits_that_fit[where b=150
      and commit_diffs="?dm'" and commits="?cs", OF pos(2)]
  have built: "build_commit_context ?cs ?dm' (Some 150) =
          str_join ''\<newline>---\<newline>'' (budgeted_parts 150 ?dm' 0 ?cs)"
    by (rule at_150[THEN conjunct1])
  have capped:
    "sum_list (map estimate_tokens (commits_loop (Some 150) ?dm' ?cs [] 0)) \<le> 150"
    by (rule at_150[THEN conjunct2, THEN conjunct1])
  have "str_join ''\<newline>---\<newline>'' (budgeted_parts 150 ?dm' 0 ?cs) =
     commit_header (example_commit_at ''abc2'' None) @ ''\<newline>---\<newline>'' @
     commit_header (example_commit_at ''abc1'' None) @
     file_text_full (example_file ''a.py'' (replicate 59 CHR ''-'')) @
     file_text_omitted (example_file ''big.py'' (replicate 600 CHR ''+''))"
    by (simp add: Let_def budgeted_commit_text_def file_text_under_def commit_header_def
          example_commit_at_def dict_get_def estimate_tokens_def CHARS_PER_TOKEN_def
          example_file_def file_text_full_def file_text_omitted_def code_fence_def)
  with composed built dropped capped show ?thesis by (simp only:)
qed

lemma unbudgeted_None: "\<not> budget_given None" by (simp add: budget_given_def)

lemmas example_eval = build_unbudgeted[OF unbudgeted_None] full_commit_block_def commit_header_def
  example_big_commit_def example_commit_at_def dict_get_def estimate_tokens_def CHARS_PER_TOKEN_def

text \<open>
  C10, as the specification states it: files of one commit that each fit within the
  budget are all rendered in full although their combined size exceeds it. It fails on
  a commit of two files of 30 estimated tokens each under a budget of 40: the check of
  line 177 weighs the whole text of the commit against the budget, the commit is not
  appended, and the context is empty.
\<close>

theorem files_fitting_alone_not_in_context_counterexample:
  "0 + estimate_tokens (file_text_full (example_file ''a.py'' (replicate 59 CHR ''+''))) \<le> 40 \<and>
   0 + estimate_tokens (file_text_full (example_file ''b.py'' (replicate 59 CHR ''-''))) \<le> 40 \<and>
   estimate_tokens (file_text_full (example_file ''a.py'' (replicate 59 CHR ''+''))) +
   estimate_tokens (file_text_full (example_file ''b.py'' (replicate 59 CHR ''-''))) > 40 \<and>
   build_commit_context [example_commit_at ''abc1'' None]
     [''abc1'' \<mapsto> [example_file ''a.py'' (replicate 59 CHR ''+''),
                    example_file ''b.py'' (replicate 59 CHR ''-'')]] (Some 40) = []"
  by (simp add: build_commit_context_def Let_def commit_text_of_def budget_given_def
        over_budget_def example_eval get_file_size_def example_file_def file_text_full_def
        code_fence_def)

subsection \<open>process_small_days_batch\<close>

lemma pbe_ok:
  assumes "\<forall>ctx. \<not> isl (an rp ctx rc)"
  shows "\<exists>st'. process_batch_and_extend an cs dm st rp rc tb = Inr st' \<and>
               batch_calls st' = batch_calls st @
                 [\<lparr>call_commits = cs, call_budget = tb,
                   call_context = build_commit_context cs dm tb\<rparr>]"
proof -
  obtain r where "an rp (build_commit_context cs dm tb) rc = Inr r"
    using assms by (metis isl_def sum.exhaust_sel sum.collapse(2))
  then show ?thesis by (simp add: process_batch_and_extend_def)
qed

lemma small_days_ok:
  assumes "\<forall>ctx. \<not> isl (an rp ctx rc)"
  shows "\<exists>st'.
     (case small_days_loop an dm rp rc thr days cb ct st of
        Inl e \<Rightarrow> Inl e
      | Inr (cb', st1) \<Rightarrow>
          if cb' \<noteq> [] then process_batch_and_extend an cb' dm st1 rp rc None else Inr st1)
       = Inr st' \<and>
     batch_calls st' = batch_calls st @ map (unbudgeted_call dm) (pack_days thr days cb ct)"
proof (induction days arbitrary: cb ct st)
  case Nil
  show ?case
  proof (cases "cb = []")
    case True
    then show ?thesis by simp
  next
    case False
    with pbe_ok[where an=an and rp=rp and rc=rc and cs=cb and dm=dm and st=st and tb=None, OF assms] show ?thesis
      by (auto simp: unbudgeted_call_def)
  qed
next
  case (Cons e days)
  obtain day dcs dtok where e: "e = (day, dcs, dtok)" by (cases e) auto
  show ?case
  proof (cases "cb \<noteq> [] \<and> ct + dtok > thr")
    case True
    from pbe_ok[where an=an and rp=rp and rc=rc and cs=cb and dm=dm and st=st and tb=None, OF assms] obtain st1 where
      st1: "process_batch_and_extend an cb dm st rp rc None = Inr st1"
        "batch_calls st1 = batch_calls st @ [unbudgeted_call dm cb]"
      by (auto simp: unbudgeted_call_def)
    from Cons.IH[of dcs dtok st1] obtain st' where
      "(case small_days_loop an dm rp rc thr days dcs dtok st1 of
        Inl e \<Rightarrow> Inl e
      | Inr (cb', st1) \<Rightarrow>
          if cb' \<noteq> [] then process_batch_and_extend an cb' dm st1 rp rc None else Inr st1)
       = Inr st'"
      "batch_calls st' = batch_calls st1 @ map (unbudgeted_call dm) (pack_days thr days dcs dtok)"
      by blast
    with True st1 e show ?thesis by (simp add: add.commute)
  next
    case False
    with Cons.IH[of "cb @ dcs" "ct + dtok" st] e show ?thesis
      by (auto simp: add.commute)
  qed
qed

lemma process_small_days_batch_ok:
  assumes "\<forall>ctx. \<not> isl (an rp ctx rc)"
  shows "\<exists>st'. process_small_days_batch an days dm st rp rc thr = Inr st' \<and>
     batch_calls st' = batch_calls st @ map (unbudgeted_call dm) (pack_days thr days [] 0)"
  using small_days_ok[where an=an and rp=rp and rc=rc and dm=dm and thr=thr and days=days
      and cb="[]" and ct=0 and st=st, OF assms]
  by (simp add: process_small_days_batch_def)

text \<open>
  C1, as the specification states it: three days of 60,000 under a threshold of
  90,000 give two batches, the second holding the second and the third day. It
  fails: the third day would bring the batch of the second day to 120,000, over the
  threshold, so that batch is flushed too, and there are three calls, one per day.
\<close>

theorem three_days_of_60000_counterexample:
  "map_sum id (map call_commits \<circ> batch_calls)
     (process_small_days_batch example_analyze_batch
        [(''2024-01-15'', [example_commit_at ''abc1'' (Some ''2024-01-15T10:00:00Z'')], 60000),
         (''2024-01-16'', [example_commit_at ''abc3'' (Some ''2024-01-16T10:00:00Z'')], 60000),
         (''2024-01-17'', [example_commit_at ''abc6'' (Some ''2024-01-17T10:00:00Z'')], 60000)]
        Map.empty empty_state ''example/repo1'' None 90000) =
   Inr [[example_commit_at ''abc1'' (Some ''2024-01-15T10:00:00Z'')],
        [example_commit_at ''abc3'' (Some ''2024-01-16T10:00:00Z'')],
        [example_commit_at ''abc6'' (Some ''2024-01-17T10:00:00Z'')]] \<and>
   map_sum id (map call_commits \<circ> batch_calls)
     (process_small_days_batch example_analyze_batch
        [(''2024-01-15'', [example_commit_at ''abc1'' (Some ''2024-01-15T10:00:00Z'')], 60000),
         (''2024-01-16'', [example_commit_at ''abc3'' (Some ''2024-01-16T10:00:00Z'')], 60000),
         (''2024-01-17'', [example_commit_at ''abc6'' (Some ''2024-01-17T10:00:00Z'')], 60000)]
        Map.empty empty_state ''example/repo1'' None 90000) \<noteq>
   Inr [[example_commit_at ''abc1'' (Some ''2024-01-15T10:00:00Z'')],
        [example_commit_at ''abc3'' (Some ''2024-01-16T10:00:00Z''),
         example_commit_at ''abc6'' (Some ''2024-01-17T10:00:00Z'')]]"
  by (simp add: process_small_days_batch_def process_batch_and_extend_def
        example_analyze_batch_def empty_state_def)

text \<open>
  C1, amended. Three days, each of estimated size 60,000 and each with at least one
  commit, under a threshold of 90,000 give exactly three batches, one per day in
  order: the batch is flushed before the second day and again before the third.
\<close>

theorem three_days_of_60000_make_three_batches:
  assumes "\<forall>ctx. \<not> isl (analyze_batch repo_path ctx repo_context)"
    and "commits_a \<noteq> []" "commits_b \<noteq> []" "commits_c \<noteq> []"
  shows "\<exists>st'. process_small_days_batch analyze_batch
            [(day_a, commits_a, 60000), (day_b, commits_b, 60000), (day_c, commits_c, 60000)]
            commit_diffs st repo_path repo_context 90000 = Inr st' \<and>
          batch_calls st' = batch_calls st @
            [unbudgeted_call commit_diffs commits_a, unbudgeted_call commit_diffs commits_b,
             unbudgeted_call commit_diffs commits_c]"
  using process_small_days_batch_ok[where an=analyze_batch and rp=repo_path and rc=repo_context
      and dm=commit_diffs and st=st and thr=90000
      and days="[(day_a, commits_a, 60000), (day_b, commits_b, 60000), (day_c, commits_c, 60000)]",
      OF assms(1)] assms(2-)
  by simp

theorem three_days_of_60000_make_three_batches_witness:
  "\<exists>st'. process_small_days_batch example_analyze_batch
        [(''2024-01-15'', [example_commit_at ''abc1'' (Some ''2024-01-15T10:00:00Z'')], 60000),
         (''2024-01-16'', [example_commit_at ''abc3'' (Some ''2024-01-16T10:00:00Z'')], 60000),
         (''2024-01-17'', [example_commit_at ''abc6'' (Some ''2024-01-17T10:00:00Z'')], 60000)]
        Map.empty empty_state ''example/repo1'' None 90000 = Inr st' \<and>
     map call_commits (batch_calls st') =
       [[example_commit_at ''abc1'' (Some ''2024-01-15T10:00:00Z'')],
        [example_commit_at ''abc3'' (Some ''2024-01-16T10:00:00Z'')],
        [example_commit_at ''abc6'' (Some ''2024-01-17T10:00:00Z'')]]"
proof -
  have nr: "\<forall>ctx. \<not> isl (example_analyze_batch ''example/repo1'' ctx None)"
    by (simp add: example_analyze_batch_def)
  from three_days_of_60000_make_three_batches[where analyze_batch=example_analyze_batch and repo_path="''example/repo1''"
      and repo_context=None and st=empty_state and commit_diffs=Map.empty
      and commits_a="[example_commit_at ''abc1'' (Some ''2024-01-15T10:00:00Z'')]"
      and commits_b="[example_commit_at ''abc3'' (Some ''2024-01-16T10:00:00Z'')]"
      and commits_c="[example_commit_at ''abc6'' (Some ''2024-01-17T10:00:00Z'')]"
      and day_a="''2024-01-15''" and day_b="''2024-01-16''" and day_c="''2024-01-17''", OF nr]
  show ?thesis
    by (auto simp: empty_state_def unbudgeted_call_def)
qed

subsection \<open>process_repository\<close>

lemma large_days_ok:
  assumes "\<forall>ctx. \<not> isl (an rp ctx rc)"
    and "\<forall>e \<in> set days. fst (snd e) \<noteq> []"
  shows "\<exists>st'. large_days_loop an dm rp rc days st = Inr st' \<and>
     batch_calls st' = batch_calls st @
       map (large_day_call dm) (filter (\<lambda>e. snd (snd e) > TIER_1_THRESHOLD) days)"
  using assms(2)
proof (induction days arbitrary: st)
  case Nil
  then show ?case by simp
next
  case (Cons e days)
  obtain day dcs dtok where e: "e = (day, dcs, dtok)" by (cases e) auto
  from Cons.prems e have ne: "dcs \<noteq> []" and rest: "\<forall>e \<in> set days. fst (snd e) \<noteq> []"
    by auto
  show ?case
  proof (cases "dtok > TIER_1_THRESHOLD")
    case True
    from pbe_ok[where an=an and rp=rp and rc=rc and cs=dcs and dm=dm and st=st and tb="Some (TIER_1_THRESHOLD div int (length dcs))", OF assms(1)]
    obtain st1 where st1:
      "process_batch_and_extend an dcs dm st rp rc (Some (TIER_1_THRESHOLD div int (length dcs))) = Inr st1"
      "batch_calls st1 = batch_calls st @ [large_day_call dm (day, dcs, dtok)]"
      by (auto simp: large_day_call_def TIER_1_THRESHOLD_def)
    from Cons.IH[OF rest, of st1] obtain st' where
      "large_days_loop an dm rp rc days st1 = Inr st'"
      "batch_calls st' = batch_calls st1 @
         map (large_day_call dm) (filter (\<lambda>e. snd (snd e) > TIER_1_THRESHOLD) days)"
      by blast
    with True st1 e ne show ?thesis by (simp add: Let_def)
  next
    case False
    with Cons.IH[OF rest, of st] e show ?thesis by simp
  qed
qed

lemma map_insort_key: "map f (insort_key f x xs) = insort (f x) (map f xs)"
  by (induction xs) auto

lemma map_sort_key: "map f (sort_key f xs) = sort (map f xs)"
  by (induction xs) (simp_all add: map_insort_key)

lemma day_data_loop_eq:
  assumes "\<forall>d \<in> set days. \<exists>cs. map_of bd d = Some cs"
  shows "day_data_loop dm bd days acc =
     Inr (acc @ map (\<lambda>d. (d, the (map_of bd d),
                           estimate_tokens (build_commit_context (the (map_of bd d)) dm None))) days)"
  using assms by (induction days arbitrary: acc) (auto simp: Let_def)

lemma map_of_pairs_back:
  assumes "distinct (map fst bd)" "set xs \<subseteq> set bd"
  shows "map (\<lambda>d. (d, the (map_of bd d), g (the (map_of bd d)))) (map fst xs) =
         map (\<lambda>(d, cs). (d, cs, g cs)) xs"
  using assms(2)
proof (induction xs)
  case Nil
  then show ?case by simp
next
  case (Cons x xs)
  obtain d cs where x: "x = (d, cs)" by (cases x)
  with Cons.prems have "(d, cs) \<in> set bd" by simp
  with assms(1) have "map_of bd d = Some cs" by simp
  with Cons x show ?case by simp
qed

lemma classify_days_loop_eq:
  assumes "\<forall>d \<in> set days. \<exists>cs. map_of bd d = Some cs"
  shows "classify_days_loop dm bd days L S =
     Inr (L @ filter (\<lambda>e. snd (snd e) > TIER_1_THRESHOLD)
                (map (\<lambda>d. (d, the (map_of bd d),
                            estimate_tokens (build_commit_context (the (map_of bd d)) dm None)))
                   days),
          S @ filter (\<lambda>e. \<not> snd (snd e) > TIER_1_THRESHOLD)
                (map (\<lambda>d. (d, the (map_of bd d),
                            estimate_tokens (build_commit_context (the (map_of bd d)) dm None)))
                   days))"
  using assms by (induction days arbitrary: L S) (auto simp: Let_def)

lemma group_lookup:
  "\<forall>k \<in> set (sort (map fst (group_commits_by_day p cs))).
     \<exists>b. map_of (group_commits_by_day p cs) k = Some b"
proof -
  have d: "distinct (map fst (group_commits_by_day p cs))" by (rule group_distinct)
  show ?thesis by (auto simp: map_of_eq_Some_iff[OF d] image_iff)
qed

lemma group_day_entries:
  "map (\<lambda>d. (d, the (map_of (group_commits_by_day p cs) d),
              estimate_tokens
                (build_commit_context (the (map_of (group_commits_by_day p cs) d)) dm None)))
     (sort (map fst (group_commits_by_day p cs))) = day_entries p dm cs"
proof -
  let ?bd = "group_commits_by_day p cs"
  have d: "distinct (map fst ?bd)" by (rule group_distinct)
  have "map (\<lambda>d. (d, the (map_of ?bd d),
             estimate_tokens (build_commit_context (the (map_of ?bd d)) dm None)))
          (map fst (sort_key fst ?bd)) = day_entries p dm cs"
    unfolding day_entries_def
    by (rule map_of_pairs_back[OF d]) simp
  then show ?thesis by (simp add: map_sort_key)
qed

lemma day_data_loop_group:
  "day_data_loop dm (group_commits_by_day p cs)
     (sort (map fst (group_commits_by_day p cs))) [] = Inr (day_entries p dm cs)"
  by (simp add: day_data_loop_eq[OF group_lookup] group_day_entries)

lemma classify_days_loop_group:
  "classify_days_loop dm (group_commits_by_day p cs)
     (sort (map fst (group_commits_by_day p cs))) [] [] =
   Inr (filter (\<lambda>e. snd (snd e) > TIER_1_THRESHOLD) (day_entries p dm cs),
        filter (\<lambda>e. \<not> snd (snd e) > TIER_1_THRESHOLD) (day_entries p dm cs))"
  by (simp add: classify_days_loop_eq[OF group_lookup] group_day_entries)

lemma day_entries_nonempty: "\<forall>e \<in> set (day_entries p dm cs). fst (snd e) \<noteq> []"
  using group_bucket by (fastforce simp: day_entries_def)

lemma tier_2_ok:
  assumes "\<forall>ctx. \<not> isl (an rp ctx rc)"
  shows "\<exists>st'. tier_2_split_by_day an p cs dm st rp rc = Inr st' \<and>
     batch_calls st' = batch_calls st @
       map (unbudgeted_call dm) (pack_days 90000 (day_entries p dm cs) [] 0)"
  using process_small_days_batch_ok[where an=an and rp=rp and rc=rc and dm=dm and st=st
          and thr=90000 and days="day_entries p dm cs", OF assms]
  by (simp add: tier_2_split_by_day_def day_data_loop_group DEFAULT_BATCH_THRESHOLD_def)

lemma tier_3_ok:
  assumes "\<forall>ctx. \<not> isl (an rp ctx rc)"
  shows "\<exists>st'. tier_3_hybrid an p cs dm st rp rc = Inr st' \<and>
     batch_calls st' = batch_calls st @
       map (large_day_call dm) (filter (\<lambda>e. snd (snd e) > 100000) (day_entries p dm cs)) @
       map (unbudgeted_call dm)
         (pack_days 90000 (filter (\<lambda>e. \<not> snd (snd e) > 100000) (day_entries p dm cs)) [] 0)"
proof -
  let ?L = "filter (\<lambda>e. snd (snd e) > TIER_1_THRESHOLD) (day_entries p dm cs)"
  let ?S = "filter (\<lambda>e. \<not> snd (snd e) > TIER_1_THRESHOLD) (day_entries p dm cs)"
  have ne: "\<forall>e \<in> set ?L. fst (snd e) \<noteq> []"
    using day_entries_nonempty[of p dm cs] by simp
  have ll: "filter (\<lambda>e. snd (snd e) > TIER_1_THRESHOLD) ?L = ?L" by simp
  from large_days_ok[where an=an and rp=rp and rc=rc and dm=dm and st=st and days="?L",
      OF assms ne]
  obtain st1 where st1: "large_days_loop an dm rp rc ?L st = Inr st1"
    "batch_calls st1 = batch_calls st @ map (large_day_call dm) ?L"
    unfolding ll by blast
  from process_small_days_batch_ok[where an=an and rp=rp and rc=rc and dm=dm and st=st1
          and thr=90000 and days="?S", OF assms]
  obtain st' where "process_small_days_batch an ?S dm st1 rp rc 90000 = Inr st'"
    "batch_calls st' = batch_calls st1 @ map (unbudgeted_call dm) (pack_days 90000 ?S [] 0)"
    by blast
  with st1 show ?thesis
    by (simp add: tier_3_hybrid_def classify_days_loop_group
          DEFAULT_BATCH_THRESHOLD_def TIER_1_THRESHOLD_def)
qed

lemma process_repository_ok:
  assumes "\<forall>ctx. \<not> isl (an rp ctx rc)"
    and "dict_get (activity_commits ad) [] = cs" "cs \<noteq> []"
    and "fetch_diffs_loop get rp cs Map.empty = Inr dm"
  shows "\<exists>result calls. process_repository get an p rp ad rc = Inr (result, calls) \<and>
     repository result = rp \<and>
     calls =
       (let T = estimate_tokens (build_commit_context cs dm None) in
        if T < 100000 then [unbudgeted_call dm cs]
        else if T < 700000
        then map (unbudgeted_call dm) (pack_days 90000 (day_entries p dm cs) [] 0)
        else map (large_day_call dm) (filter (\<lambda>e. snd (snd e) > 100000) (day_entries p dm cs)) @
             map (unbudgeted_call dm)
               (pack_days 90000 (filter (\<lambda>e. \<not> snd (snd e) > 100000) (day_entries p dm cs)) [] 0))"
proof -
  let ?st = "\<lparr>all_changes = [], batch_calls = []\<rparr>"
  let ?T = "estimate_tokens (build_commit_context cs dm None)"
  consider (t1) "?T < 100000" | (t2) "\<not> ?T < 100000" "?T < 700000" | (t3) "\<not> ?T < 100000" "\<not> ?T < 700000"
    by blast
  then show ?thesis
  proof cases
    case t1
    from pbe_ok[where an=an and rp=rp and rc=rc and cs=cs and dm=dm and st="?st" and tb=None,
        OF assms(1)]
    obtain st' where "process_batch_and_extend an cs dm ?st rp rc None = Inr st'"
      "batch_calls st' = [unbudgeted_call dm cs]"
      by (auto simp: unbudgeted_call_def)
    with t1 assms(2-) show ?thesis
      by (simp add: process_repository_def Let_def TIER_1_THRESHOLD_def)
  next
    case t2
    from tier_2_ok[where an=an and rp=rp and rc=rc and cs=cs and dm=dm and st="?st" and p=p,
        OF assms(1)]
    obtain st' where "tier_2_split_by_day an p cs dm ?st rp rc = Inr st'"
      "batch_calls st' = map (unbudgeted_call dm) (pack_days 90000 (day_entries p dm cs) [] 0)"
      by auto
    with t2 assms(2-) show ?thesis
      by (simp add: process_repository_def Let_def TIER_1_THRESHOLD_def TIER_2_THRESHOLD_def)
  next
    case t3
    from tier_3_ok[where an=an and rp=rp and rc=rc and cs=cs and dm=dm and st="?st" and p=p,
        OF assms(1)]
    obtain st' where "tier_3_hybrid an p cs dm ?st rp rc = Inr st'"
      "batch_calls st' =
         map (large_day_call dm) (filter (\<lambda>e. snd (snd e) > 100000) (day_entries p dm cs)) @
         map (unbudgeted_call dm)
           (pack_days 90000 (filter (\<lambda>e. \<not> snd (snd e) > 100000) (day_entries p dm cs)) [] 0)"
      by auto
    with t3 assms(2-) show ?thesis
      by (simp add: process_repository_def Let_def TIER_1_THRESHOLD_def TIER_2_THRESHOLD_def)
  qed
qed

lemma process_repository_no_commits:
  "dict_get (activity_commits ad) [] = [] \<Longrightarrow>
   process_repository get an p rp ad rc = Inr (\<lparr>repository = rp, changes = []\<rparr>, [])"
  by (simp add: process_repository_def)

text \<open>The example repositories, evaluated.\<close>

lemma t2_total:
  "estimate_tokens (build_commit_context example_tier_2_commits Map.empty None) = 180072"
  by (simp add: example_eval example_tier_2_commits_def)

lemma t3_total:
  "estimate_tokens (build_commit_context example_tier_3_commits Map.empty None) = 750057"
  by (simp add: example_eval example_tier_3_commits_def example_large_day_def)

lemma day_key_big:
  "day_key_of example_iso_day (example_big_commit s ''2024-01-15'' n) = ''2024-01-15''"
  "day_key_of example_iso_day (example_big_commit s ''2024-01-16'' n) = ''2024-01-16''"
  "day_key_of example_iso_day (example_big_commit s ''2024-01-17'' n) = ''2024-01-17''"
  "day_key_of example_iso_day (example_commit_at s (Some ''2024-01-14T10:00:00Z'')) = ''2024-01-14''"
  by (simp_all add: day_key_of_def example_big_commit_def example_commit_at_def dict_get_def
        replace_Z_def example_iso_day_def)

lemma example_day_order:
  "''2024-01-14'' \<le> ''2024-01-15''" "''2024-01-14'' \<le> ''2024-01-16''"
  "''2024-01-15'' \<le> ''2024-01-16''" "''2024-01-15'' \<le> ''2024-01-17''"
  "''2024-01-16'' \<le> ''2024-01-17''"
  "\<not> ''2024-01-16'' \<le> ''2024-01-14''" "\<not> ''2024-01-16'' \<le> ''2024-01-15''"
  "\<not> ''2024-01-15'' \<le> ''2024-01-14''"
  by code_simp+

lemma example_fetch_none:
  "fetch_commit_diff example_requests_get ''example/big'' s = Inr []"
  by (simp add: fetch_commit_diff_def example_requests_get_def)

lemma example_big_sha: "dict_get (sha (example_big_commit s day n)) [] = s"
  "dict_get (sha (example_commit_at s ts)) [] = s"
  by (simp_all add: example_big_commit_def example_commit_at_def dict_get_def)

lemma t3_fetch:
  "fetch_diffs_loop example_requests_get ''example/big'' example_tier_3_commits Map.empty =
     Inr Map.empty"
  by (simp add: example_tier_3_commits_def example_large_day_def example_big_sha
        example_fetch_none Let_def)

lemma t2_fetch:
  "fetch_diffs_loop example_requests_get ''example/big'' example_tier_2_commits Map.empty =
     Inr Map.empty"
  by (simp add: example_tier_2_commits_def example_big_sha example_fetch_none Let_def)

lemma t3_groups:
  "group_commits_by_day example_iso_day example_tier_3_commits =
     [(''2024-01-16'', [example_big_commit ''huge'' ''2024-01-16'' 1800000]),
      (''2024-01-14'', [example_commit_at ''abc3'' (Some ''2024-01-14T10:00:00Z'')]),
      (''2024-01-15'', example_large_day)]"
  by (simp add: group_commits_by_day_def example_tier_3_commits_def example_large_day_def
        day_key_big)

lemma t2_groups:
  "group_commits_by_day example_iso_day example_tier_2_commits =
     [(''2024-01-16'', [example_big_commit ''big2'' ''2024-01-16'' 180000]),
      (''2024-01-15'', [example_big_commit ''big1'' ''2024-01-15'' 180000]),
      (''2024-01-17'', [example_big_commit ''big3'' ''2024-01-17'' 180000])]"
  by (simp add: group_commits_by_day_def example_tier_2_commits_def day_key_big)

lemma t3_entries:
  "day_entries example_iso_day Map.empty example_tier_3_commits =
     [(''2024-01-14'', [example_commit_at ''abc3'' (Some ''2024-01-14T10:00:00Z'')], 30),
      (''2024-01-15'', example_large_day, 150000),
      (''2024-01-16'', [example_big_commit ''huge'' ''2024-01-16'' 1800000], 600023)]"
  by (simp add: day_entries_def t3_groups example_day_order example_eval example_large_day_def)

lemma t2_entries:
  "day_entries example_iso_day Map.empty example_tier_2_commits =
     [(''2024-01-15'', [example_big_commit ''big1'' ''2024-01-15'' 180000], 60023),
      (''2024-01-16'', [example_big_commit ''big2'' ''2024-01-16'' 180000], 60023),
      (''2024-01-17'', [example_big_commit ''big3'' ''2024-01-17'' 180000], 60023)]"
  by (simp add: day_entries_def t2_groups example_day_order example_eval)

lemma example_no_raise:
  "\<forall>ctx. \<not> isl (example_analyze_batch ''example/big'' ctx None)"
  "\<forall>ctx. \<not> isl (example_analyze_batch ''example/repo1'' ctx None)"
  by (simp_all add: example_analyze_batch_def)

lemma example_large_day_length: "length example_large_day = 10" "example_large_day \<noteq> []"
  by (simp_all add: example_large_day_def)

lemma example_non_code_logo: "is_non_code_file ''logo.png''"
  by code_simp

lemma example_fetch_other:
  "s \<noteq> ''abc1'' \<Longrightarrow> fetch_commit_diff example_requests_get ''example/repo1'' s = Inr []"
  by (simp add: fetch_commit_diff_def example_requests_get_def)

lemma example_fetch_broken:
  "fetch_commit_diff example_requests_get ''broken/repo'' s = Inr []"
  by (simp add: fetch_commit_diff_def example_requests_get_def)

lemma example_fetch_abc1:
  "fetch_commit_diff example_requests_get ''example/repo1'' ''abc1'' =
     Inr [\<lparr>filename = ''Makefile'', patch = ''+all: build'', status = ''modified'',
           additions = 1, deletions = 0\<rparr>]"
  by (simp add: fetch_commit_diff_def example_requests_get_def example_raw_file_def
        example_non_code example_non_code_logo processed_entry_def dict_get_def
        MAX_FILE_DIFF_SIZE_def)

lemma t1_fetch:
  "fetch_diffs_loop example_requests_get ''example/repo1'' example_commits Map.empty =
     Inr example_diffs"
  by (simp add: example_commits_def example_big_sha example_fetch_other example_fetch_abc1
        Let_def example_diffs_def)

lemma t1_fetch_broken:
  "fetch_diffs_loop example_requests_get ''broken/repo'' example_commits Map.empty =
     Inr Map.empty"
  by (simp add: example_commits_def example_big_sha example_fetch_broken Let_def)

lemma t1_total:
  "estimate_tokens (build_commit_context example_commits example_diffs None) = 165"
  by (simp add: example_eval example_commits_def example_diffs_def file_text_full_def
        code_fence_def)

lemma t1_total_broken:
  "estimate_tokens (build_commit_context example_commits Map.empty None) = 149"
  by (simp add: example_eval example_commits_def)

text \<open>
  C3, as the specification states it: whenever the estimated size is below 100,000,
  exactly one Summarizer call is made. It fails for a repository with no commits:
  the size of the empty context is 0, and \<^verbatim>\<open>process_repository\<close> returns before any
  call.
\<close>

theorem no_commits_no_summarizer_call_counterexample:
  "estimate_tokens (build_commit_context [] Map.empty None) < 100000 \<and>
   process_repository example_requests_get example_analyze_batch example_iso_day
     ''example/repo1'' \<lparr>activity_commits = Some []\<rparr> None =
   Inr (\<lparr>repository = ''example/repo1'', changes = []\<rparr>, []) \<and>
   map_sum id (length \<circ> snd)
     (process_repository example_requests_get example_analyze_batch example_iso_day
        ''example/repo1'' \<lparr>activity_commits = Some []\<rparr> None) \<noteq> Inr 1"
  by (simp add: process_repository_def dict_get_def build_commit_context_def
        estimate_tokens_def CHARS_PER_TOKEN_def)

text \<open>
  C3, amended. A repository with no commits gets the result with no changes, and no
  call is made. For a non-empty list of commits, when neither the fetch of the diffs
  nor the Summarizer raises, the calls are decided by the estimated size \<open>T\<close> of the
  context of all commits without a budget: below 100,000, one call without a budget
  on all the commits, whose context is the join of the full blocks of all of them;
  from 100,000 and below 700,000, one call without a budget for each batch of the
  greedy packing, at threshold 90,000, of the days sorted by key; from 700,000, one
  budgeted call for each day of more than 100,000, then one call for each batch of
  the packing of the other days.
\<close>

theorem tier_selection:
  "(dict_get (activity_commits activity_data) [] = [] \<longrightarrow>
      process_repository requests_get analyze_batch iso_day repo_path activity_data repo_context =
        Inr (\<lparr>repository = repo_path, changes = []\<rparr>, [])) \<and>
   (dict_get (activity_commits activity_data) [] = commits \<and> commits \<noteq> [] \<and>
    fetch_diffs_loop requests_get repo_path commits Map.empty = Inr commit_diffs \<and>
    (\<forall>ctx. \<not> isl (analyze_batch repo_path ctx repo_context)) \<and>
    T = estimate_tokens (build_commit_context commits commit_diffs None) \<longrightarrow>
    (\<exists>result calls.
       process_repository requests_get analyze_batch iso_day repo_path activity_data repo_context =
         Inr (result, calls) \<and>
       (T < 100000 \<longrightarrow>
          calls = [\<lparr>call_commits = commits, call_budget = None,
                    call_context = str_join ''\<newline>---\<newline>''
                                     (map (full_commit_block commit_diffs) commits)\<rparr>]) \<and>
       (100000 \<le> T \<and> T < 700000 \<longrightarrow>
          calls = map (unbudgeted_call commit_diffs)
                    (pack_days 90000 (day_entries iso_day commit_diffs commits) [] 0)) \<and>
       (700000 \<le> T \<longrightarrow>
          calls =
            map (large_day_call commit_diffs)
              (filter (\<lambda>e. snd (snd e) > 100000) (day_entries iso_day commit_diffs commits)) @
            map (unbudgeted_call commit_diffs)
              (pack_days 90000
                 (filter (\<lambda>e. \<not> snd (snd e) > 100000)
                    (day_entries iso_day commit_diffs commits)) [] 0))))"
proof (intro conjI impI)
  assume "dict_get (activity_commits activity_data) [] = []"
  then show "process_repository requests_get analyze_batch iso_day repo_path activity_data
      repo_context = Inr (\<lparr>repository = repo_path, changes = []\<rparr>, [])"
    by (rule process_repository_no_commits)
next
  assume a: "dict_get (activity_commits activity_data) [] = commits \<and> commits \<noteq> [] \<and>
    fetch_diffs_loop requests_get repo_path commits Map.empty = Inr commit_diffs \<and>
    (\<forall>ctx. \<not> isl (analyze_batch repo_path ctx repo_context)) \<and>
    T = estimate_tokens (build_commit_context commits commit_diffs None)"
  from process_repository_ok[where an=analyze_batch and rp=repo_path and rc=repo_context
      and ad=activity_data and cs=commits and get=requests_get and dm=commit_diffs
      and p=iso_day] a
  obtain result calls where
    r: "process_repository requests_get analyze_batch iso_day repo_path activity_data
          repo_context = Inr (result, calls)"
    and c: "calls =
       (if T < 100000 then [unbudgeted_call commit_diffs commits]
        else if T < 700000
        then map (unbudgeted_call commit_diffs)
               (pack_days 90000 (day_entries iso_day commit_diffs commits) [] 0)
        else map (large_day_call commit_diffs)
               (filter (\<lambda>e. snd (snd e) > 100000) (day_entries iso_day commit_diffs commits)) @
             map (unbudgeted_call commit_diffs)
               (pack_days 90000
                  (filter (\<lambda>e. \<not> snd (snd e) > 100000)
                     (day_entries iso_day commit_diffs commits)) [] 0))"
    by (auto simp: Let_def)
  have u: "unbudgeted_call commit_diffs commits =
      \<lparr>call_commits = commits, call_budget = None,
       call_context = str_join ''\<newline>---\<newline>''
                        (map (full_commit_block commit_diffs) commits)\<rparr>"
    by (simp add: unbudgeted_call_def build_unbudgeted budget_given_def)
  show "\<exists>result calls.
       process_repository requests_get analyze_batch iso_day repo_path activity_data repo_context =
         Inr (result, calls) \<and>
       (T < 100000 \<longrightarrow>
          calls = [\<lparr>call_commits = commits, call_budget = None,
                    call_context = str_join ''\<newline>---\<newline>''
                                     (map (full_commit_block commit_diffs) commits)\<rparr>]) \<and>
       (100000 \<le> T \<and> T < 700000 \<longrightarrow>
          calls = map (unbudgeted_call commit_diffs)
                    (pack_days 90000 (day_entries iso_day commit_diffs commits) [] 0)) \<and>
       (700000 \<le> T \<longrightarrow>
          calls =
            map (large_day_call commit_diffs)
              (filter (\<lambda>e. snd (snd e) > 100000) (day_entries iso_day commit_diffs commits)) @
            map (unbudgeted_call commit_diffs)
              (pack_days 90000
                 (filter (\<lambda>e. \<not> snd (snd e) > 100000)
                    (day_entries iso_day commit_diffs commits)) [] 0))"
    using r c u by (intro exI[of _ result] exI[of _ calls]) auto
qed

text \<open>
  One repository for each tier: five small commits; three days of 60,023 each; and
  a repository of 750,057 with two large days and a small one.
\<close>

theorem tier_selection_witness:
  "(\<exists>result calls.
      process_repository example_requests_get example_analyze_batch example_iso_day
        ''example/repo1'' \<lparr>activity_commits = Some example_commits\<rparr> None = Inr (result, calls) \<and>
      estimate_tokens (build_commit_context example_commits example_diffs None) < 100000 \<and>
      map call_commits calls = [example_commits] \<and> map call_budget calls = [None]) \<and>
   (\<exists>result calls.
      process_repository example_requests_get example_analyze_batch example_iso_day
        ''example/big'' \<lparr>activity_commits = Some example_tier_2_commits\<rparr> None =
        Inr (result, calls) \<and>
      estimate_tokens (build_commit_context example_tier_2_commits Map.empty None) = 180072 \<and>
      map call_commits calls =
        [[example_big_commit ''big1'' ''2024-01-15'' 180000],
         [example_big_commit ''big2'' ''2024-01-16'' 180000],
         [example_big_commit ''big3'' ''2024-01-17'' 180000]] \<and>
      map call_budget calls = [None, None, None]) \<and>
   (\<exists>result calls.
      process_repository example_requests_get example_analyze_batch example_iso_day
        ''example/big'' \<lparr>activity_commits = Some example_tier_3_commits\<rparr> None =
        Inr (result, calls) \<and>
      estimate_tokens (build_commit_context example_tier_3_commits Map.empty None) = 750057 \<and>
      map call_commits calls =
        [example_large_day, [example_big_commit ''huge'' ''2024-01-16'' 1800000],
         [example_commit_at ''abc3'' (Some ''2024-01-14T10:00:00Z'')]] \<and>
      map call_budget calls = [Some 10000, Some 100000, None])"
proof (intro conjI)
  have a: "dict_get (activity_commits \<lparr>activity_commits = Some example_commits\<rparr>) [] =
        example_commits \<and> example_commits \<noteq> [] \<and>
      fetch_diffs_loop example_requests_get ''example/repo1'' example_commits Map.empty =
        Inr example_diffs \<and>
      (\<forall>ctx. \<not> isl (example_analyze_batch ''example/repo1'' ctx None)) \<and>
      165 = estimate_tokens (build_commit_context example_commits example_diffs None)"
    by (simp add: dict_get_def t1_fetch t1_total example_no_raise) (simp add: example_commits_def)
  from tier_selection[where activity_data="\<lparr>activity_commits = Some example_commits\<rparr>"
      and commits=example_commits and requests_get=example_requests_get
      and repo_path="''example/repo1''" and commit_diffs=example_diffs
      and analyze_batch=example_analyze_batch and repo_context=None and T=165
      and iso_day=example_iso_day] a
  obtain result calls where
    "process_repository example_requests_get example_analyze_batch example_iso_day
        ''example/repo1'' \<lparr>activity_commits = Some example_commits\<rparr> None = Inr (result, calls)"
    "calls = [\<lparr>call_commits = example_commits, call_budget = None,
               call_context = str_join ''\<newline>---\<newline>''
                                (map (full_commit_block example_diffs) example_commits)\<rparr>]"
    by auto
  then show "\<exists>result calls.
      process_repository example_requests_get example_analyze_batch example_iso_day
        ''example/repo1'' \<lparr>activity_commits = Some example_commits\<rparr> None = Inr (result, calls) \<and>
      estimate_tokens (build_commit_context example_commits example_diffs None) < 100000 \<and>
      map call_commits calls = [example_commits] \<and> map call_budget calls = [None]"
    by (simp add: t1_total)
next
  have a: "dict_get (activity_commits \<lparr>activity_commits = Some example_tier_2_commits\<rparr>) [] =
        example_tier_2_commits \<and> example_tier_2_commits \<noteq> [] \<and>
      fetch_diffs_loop example_requests_get ''example/big'' example_tier_2_commits Map.empty =
        Inr Map.empty \<and>
      (\<forall>ctx. \<not> isl (example_analyze_batch ''example/big'' ctx None)) \<and>
      180072 = estimate_tokens (build_commit_context example_tier_2_commits Map.empty None)"
    by (simp add: dict_get_def t2_fetch t2_total example_no_raise)
       (simp add: example_tier_2_commits_def)
  from tier_selection[where activity_data="\<lparr>activity_commits = Some example_tier_2_commits\<rparr>"
      and commits=example_tier_2_commits and requests_get=example_requests_get
      and repo_path="''example/big''" and commit_diffs=Map.empty
      and analyze_batch=example_analyze_batch and repo_context=None and T=180072
      and iso_day=example_iso_day] a
  obtain result calls where
    "process_repository example_requests_get example_analyze_batch example_iso_day
        ''example/big'' \<lparr>activity_commits = Some example_tier_2_commits\<rparr> None =
        Inr (result, calls)"
    "calls = map (unbudgeted_call Map.empty)
               (pack_days 90000 (day_entries example_iso_day Map.empty example_tier_2_commits) [] 0)"
    by auto
  then show "\<exists>result calls.
      process_repository example_requests_get example_analyze_batch example_iso_day
        ''example/big'' \<lparr>activity_commits = Some example_tier_2_commits\<rparr> None =
        Inr (result, calls) \<and>
      estimate_tokens (build_commit_context example_tier_2_commits Map.empty None) = 180072 \<and>
      map call_commits calls =
        [[example_big_commit ''big1'' ''2024-01-15'' 180000],
         [example_big_commit ''big2'' ''2024-01-16'' 180000],
         [example_big_commit ''big3'' ''2024-01-17'' 180000]] \<and>
      map call_budget calls = [None, None, None]"
    by (simp add: t2_total t2_entries unbudgeted_call_def)
next
  have a: "dict_get (activity_commits \<lparr>activity_commits = Some example_tier_3_commits\<rparr>) [] =
        example_tier_3_commits \<and> example_tier_3_commits \<noteq> [] \<and>
      fetch_diffs_loop example_requests_get ''example/big'' example_tier_3_commits Map.empty =
        Inr Map.empty \<and>
      (\<forall>ctx. \<not> isl (example_analyze_batch ''example/big'' ctx None)) \<and>
      750057 = estimate_tokens (build_commit_context example_tier_3_commits Map.empty None)"
    by (simp add: dict_get_def t3_fetch t3_total example_no_raise)
       (simp add: example_tier_3_commits_def)
  from tier_selection[where activity_data="\<lparr>activity_commits = Some example_tier_3_commits\<rparr>"
      and commits=example_tier_3_commits and requests_get=example_requests_get
      and repo_path="''example/big''" and commit_diffs=Map.empty
      and analyze_batch=example_analyze_batch and repo_context=None and T=750057
      and iso_day=example_iso_day] a
  obtain result calls where
    "process_repository example_requests_get example_analyze_batch example_iso_day
        ''example/big'' \<lparr>activity_commits = Some example_tier_3_commits\<rparr> None =
        Inr (result, calls)"
    "calls =
       map (large_day_call Map.empty)
         (filter (\<lambda>e. snd (snd e) > 100000)
            (day_entries example_iso_day Map.empty example_tier_3_commits)) @
       map (unbudgeted_call Map.empty)
         (pack_days 90000
            (filter (\<lambda>e. \<not> snd (snd e) > 100000)
               (day_entries example_iso_day Map.empty example_tier_3_commits)) [] 0)"
    by auto
  then show "\<exists>result calls.
      process_repository example_requests_get example_analyze_batch example_iso_day
        ''example/big'' \<lparr>activity_commits = Some example_tier_3_commits\<rparr> None =
        Inr (result, calls) \<and>
      estimate_tokens (build_commit_context example_tier_3_commits Map.empty None) = 750057 \<and>
      map call_commits calls =
        [example_large_day, [example_big_commit ''huge'' ''2024-01-16'' 1800000],
         [example_commit_at ''abc3'' (Some ''2024-01-14T10:00:00Z'')]] \<and>
      map call_budget calls = [Some 10000, Some 100000, None]"
    by (simp add: t3_total t3_entries unbudgeted_call_def large_day_call_def
          example_large_day_length)
qed











text \<open>
  \<^verbatim>\<open>build_commit_context\<close> weighs that budget against the running total of the whole
  call: the first commit of the example day alone has 14,998 estimated tokens, so
  the context of the day's call is empty.
\<close>

lemma example_large_day_context:
  "build_commit_context example_large_day Map.empty (Some 10000) = []"
  by (simp add: build_commit_context_def example_large_day_def Let_def commit_text_of_def
        over_budget_def example_eval)

subsection \<open>The loop over the repositories\<close>

lemma repositories_loop_eq:
  assumes "\<forall>xs. store xs = None"
  shows "repositories_loop get an p store ctxs repos acc =
     Inr (acc @ map (\<lambda>(rp, ad).
            case process_repository get an p rp ad (ctxs rp) of
              Inl e \<Rightarrow> \<lparr>repository = rp, changes = []\<rparr>
            | Inr (analysis, calls) \<Rightarrow> analysis) repos)"
  using assms
  by (induction repos arbitrary: acc) (auto simp: Let_def split: sum.splits)

lemma example_run_repo1:
  "process_repository example_requests_get example_analyze_batch example_iso_day
     ''example/repo1'' \<lparr>activity_commits = Some example_commits\<rparr> None =
   Inr (\<lparr>repository = ''example/repo1'', changes = [example_change]\<rparr>,
        [unbudgeted_call example_diffs example_commits])"
proof -
  have ne: "example_commits \<noteq> []" by (simp add: example_commits_def)
  show ?thesis
    by (simp add: process_repository_def dict_get_def ne t1_fetch t1_total Let_def
          TIER_1_THRESHOLD_def process_batch_and_extend_def example_analyze_batch_def
          unbudgeted_call_def)
qed

lemma example_run_broken:
  "process_repository example_requests_get example_analyze_batch example_iso_day
     ''broken/repo'' \<lparr>activity_commits = Some example_commits\<rparr> None =
   Inl (Raised ''timeout'')"
proof -
  have ne: "example_commits \<noteq> []" by (simp add: example_commits_def)
  show ?thesis
    by (simp add: process_repository_def dict_get_def ne t1_fetch_broken t1_total_broken Let_def
          TIER_1_THRESHOLD_def process_batch_and_extend_def example_analyze_batch_def)
qed

text \<open>
  C9. When \<^verbatim>\<open>store_data\<close> does not raise, the loop over the repositories returns one
  result for each repository, in the order of the input: the result with no changes
  for a repository on which \<^verbatim>\<open>process_repository\<close> raises, and the result of
  \<^verbatim>\<open>process_repository\<close> for every other one.
\<close>

theorem repository_failure_is_contained:
  assumes "\<forall>analyses. store_data analyses = None"
  shows "repositories_loop requests_get analyze_batch iso_day store_data repository_contexts
           github_activity_data [] =
     Inr (map (\<lambda>(repo_path, activity_data).
            case process_repository requests_get analyze_batch iso_day repo_path activity_data
                   (repository_contexts repo_path) of
              Inl e \<Rightarrow> \<lparr>repository = repo_path, changes = []\<rparr>
            | Inr (analysis, calls) \<Rightarrow> analysis) github_activity_data)"
  by (simp add: repositories_loop_eq[OF assms])

text \<open>
  Two repositories: the language model raises on the first, and the second is
  analysed.
\<close>

theorem repository_failure_is_contained_witness:
  "repositories_loop example_requests_get example_analyze_batch example_iso_day
     (\<lambda>analyses. None) Map.empty
     [(''broken/repo'', \<lparr>activity_commits = Some example_commits\<rparr>),
      (''example/repo1'', \<lparr>activity_commits = Some example_commits\<rparr>)] [] =
   Inr [\<lparr>repository = ''broken/repo'', changes = []\<rparr>,
        \<lparr>repository = ''example/repo1'', changes = [example_change]\<rparr>]"
proof -
  have st: "\<forall>analyses. (\<lambda>analyses::repo_result list. None::error option) analyses = None"
    by simp
  from repository_failure_is_contained[OF st, of example_requests_get example_analyze_batch example_iso_day Map.empty
      "[(''broken/repo'', \<lparr>activity_commits = Some example_commits\<rparr>),
        (''example/repo1'', \<lparr>activity_commits = Some example_commits\<rparr>)]"]
  show ?thesis
    by (simp add: example_run_repo1 example_run_broken del: repositories_loop.simps)
qed

end
